theory Spec2Isabelle
  imports Main
begin

section \<open>Python values, exceptions and the collaborators of the client\<close>

text \<open>
  The client (\<^verbatim>\<open>client_calculator_script.py\<close>) handles untyped Python data: chat messages
  are dictionaries, tool schemas and tool arguments are JSON-like values. A dictionary is
  an association list read with \<open>map_of\<close> (keys are distinct in a Python dictionary).
\<close>

datatype pyval =
    PNone
  | PBool bool
  | PInt int
  | PStr string
  | PList "pyval list"
  | PDict "(string \<times> pyval) list"

text \<open>An exception of class \<open>Exception\<close>: its class name and the text \<open>str(e)\<close>.\<close>

datatype exn = Exn string string

fun exn_str :: "exn \<Rightarrow> string" where
  "exn_str (Exn cls msg) = msg"

type_synonym message = "(string \<times> pyval) list"

text \<open>\<^verbatim>\<open>mcp.types.Tool\<close>: the descriptor of one tool of the provider's catalog.\<close>

record tool =
  name :: string
  description :: "string option"
  inputSchema :: "(string \<times> pyval) list"

text \<open>\<^verbatim>\<open>StdioServerParameters(command=..., args=[...], env=None)\<close>.\<close>

record server_params =
  command :: string
  args :: "string list"
  env :: "(string \<times> string) list option"

text \<open>
  What the program does to the outside, in the order it does it. A tool call is recorded
  with what the session answered (\<open>Inl\<close>: the exception it raised, \<open>Inr\<close>: the
  \<^verbatim>\<open>content\<close> of its result); a model call with the model name, the conversation
  snapshot, the tool schema (\<open>None\<close> when the \<^verbatim>\<open>tools\<close> argument is not passed)
  and what the backend answered.
\<close>

datatype event =
    Launch server_params
  | Initialize
  | ListTools
  | ModelCall string "message list" "pyval list option" "exn + message"
  | ToolCall pyval pyval "exn + pyval"

text \<open>
  \<^verbatim>\<open>ClientSession\<close>: the operations the client awaits on the session. The provider
  process is outside the program, so each operation reads and changes a world \<open>'w\<close>
  and either raises or returns.
\<close>

record 'w client_session =
  initialize :: "'w \<Rightarrow> (exn + unit) \<times> 'w"
  list_tools :: "'w \<Rightarrow> (exn + tool list) \<times> 'w"
  call_tool :: "pyval \<Rightarrow> pyval \<Rightarrow> 'w \<Rightarrow> (exn + pyval) \<times> 'w"

text \<open>
  The library functions the client calls: \<^verbatim>\<open>ollama.chat\<close> (returning the
  \<^verbatim>\<open>"message"\<close> of its response), \<^verbatim>\<open>json.dumps\<close> and \<^verbatim>\<open>repr\<close>, and the two
  context managers entered by \<^verbatim>\<open>connect_to_server\<close>.
\<close>

record ('w, 't) externals =
  chat :: "string \<Rightarrow> message list \<Rightarrow> pyval list option \<Rightarrow> 'w \<Rightarrow> (exn + message) \<times> 'w"
  json_dumps :: "pyval \<Rightarrow> exn + string"
  py_repr :: "pyval \<Rightarrow> string"
  stdio_client :: "server_params \<Rightarrow> 'w \<Rightarrow> (exn + 't) \<times> 'w"
  ClientSession :: "'t \<Rightarrow> 'w \<Rightarrow> (exn + 'w client_session) \<times> 'w"

text \<open>\<^verbatim>\<open>class MCPClient\<close>: \<^verbatim>\<open>self.model\<close> and \<^verbatim>\<open>self.session\<close>.\<close>

record 'w MCPClient =
  model :: string
  session :: "'w client_session option"

section \<open>Python primitives\<close>

definition quote :: string where
  "quote = [CHR 0x27]"

definition dquote :: string where
  "dquote = [CHR 0x22]"

definition newline :: string where
  "newline = [CHR 0x0A]"

text \<open>\<^verbatim>\<open>type(v).__name__\<close>, as the messages of \<^verbatim>\<open>TypeError\<close> print it.\<close>

fun type_name :: "pyval \<Rightarrow> string" where
  "type_name PNone = ''NoneType''"
| "type_name (PBool b) = ''bool''"
| "type_name (PInt i) = ''int''"
| "type_name (PStr s) = ''str''"
| "type_name (PList xs) = ''list''"
| "type_name (PDict d) = ''dict''"

text \<open>\<^verbatim>\<open>s.endswith(suffix)\<close>.\<close>

definition endswith :: "string \<Rightarrow> string \<Rightarrow> bool" where
  "endswith s suf = (length suf \<le> length s \<and> drop (length s - length suf) s = suf)"

text \<open>\<^verbatim>\<open>sep.join(xs)\<close>.\<close>

fun join :: "string \<Rightarrow> string list \<Rightarrow> string" where
  "join sep [] = []"
| "join sep [x] = x"
| "join sep (x # y # ys) = x @ sep @ join sep (y # ys)"

text \<open>\<^verbatim>\<open>d.get(k, default)\<close> of a dictionary.\<close>

definition dict_get :: "(string \<times> pyval) list \<Rightarrow> string \<Rightarrow> pyval \<Rightarrow> pyval" where
  "dict_get d k dflt = (case map_of d k of None \<Rightarrow> dflt | Some v \<Rightarrow> v)"

text \<open>
  The message of a chat response is not a dictionary but an \<^verbatim>\<open>ollama.Message\<close>, an
  object with declared fields, of which only \<^verbatim>\<open>role\<close> is required; the others are
  \<^verbatim>\<open>None\<close> until set. It is modelled by the association list of the fields that are
  set. Its \<^verbatim>\<open>get(k, default)\<close> is
  \<^verbatim>\<open>getattr(self, k) if hasattr(self, k) else default\<close>: a declared field answers its
  value, \<^verbatim>\<open>None\<close> when it is not set, and the default stands only for a key that
  is no field. Its \<^verbatim>\<open>m[k]\<close> answers a field that is set and raises \<^verbatim>\<open>KeyError\<close>
  otherwise, as the dictionary of the set fields does.
\<close>

definition message_fields :: "string list" where
  "message_fields =
     [''role'', ''content'', ''thinking'', ''images'', ''tool_name'', ''tool_calls'']"

definition message_get :: "message \<Rightarrow> string \<Rightarrow> pyval \<Rightarrow> pyval" where
  "message_get m k dflt = (if k \<in> set message_fields then dict_get m k PNone else dflt)"

text \<open>
  \<^verbatim>\<open>v[k]\<close> with a string key: a dictionary answers or raises \<^verbatim>\<open>KeyError\<close>; a list, a
  string, a number and \<^verbatim>\<open>None\<close> raise \<^verbatim>\<open>TypeError\<close>.
\<close>

fun subscript_error :: "pyval \<Rightarrow> exn" where
  "subscript_error (PList xs) =
     Exn ''TypeError'' ''list indices must be integers or slices, not str''"
| "subscript_error (PStr s) =
     Exn ''TypeError'' (''string indices must be integers, not '' @ quote @ ''str'' @ quote)"
| "subscript_error v =
     Exn ''TypeError'' (quote @ type_name v @ quote @ '' object is not subscriptable'')"

definition subscript :: "pyval \<Rightarrow> string \<Rightarrow> exn + pyval" where
  "subscript v k =
     (case v of
        PDict d \<Rightarrow>
          (case map_of d k of
             None \<Rightarrow> Inl (Exn ''KeyError'' (quote @ k @ quote))
           | Some x \<Rightarrow> Inr x)
      | _ \<Rightarrow> Inl (subscript_error v))"

text \<open>\<^verbatim>\<open>v[k1][k2]\<close>.\<close>

definition subscript2 :: "pyval \<Rightarrow> string \<Rightarrow> string \<Rightarrow> exn + pyval" where
  "subscript2 v k1 k2 =
     (case subscript v k1 of Inl e \<Rightarrow> Inl e | Inr x \<Rightarrow> subscript x k2)"

text \<open>Truth value of a Python object, as \<^verbatim>\<open>not v\<close> tests it.\<close>

fun truthy :: "pyval \<Rightarrow> bool" where
  "truthy PNone = False"
| "truthy (PBool b) = b"
| "truthy (PInt i) = (i \<noteq> 0)"
| "truthy (PStr s) = (s \<noteq> [])"
| "truthy (PList xs) = (xs \<noteq> [])"
| "truthy (PDict d) = (d \<noteq> [])"

text \<open>
  The items a \<^verbatim>\<open>for\<close> loop draws from a value: the elements of a list, the keys of a
  dictionary, the characters of a string; anything else is not iterable.
\<close>

fun py_iter :: "pyval \<Rightarrow> exn + pyval list" where
  "py_iter (PList xs) = Inr xs"
| "py_iter (PDict d) = Inr (map (\<lambda>kv. PStr (fst kv)) d)"
| "py_iter (PStr s) = Inr (map (\<lambda>c. PStr [c]) s)"
| "py_iter v = Inl (Exn ''TypeError'' (quote @ type_name v @ quote @ '' object is not iterable''))"

text \<open>\<^verbatim>\<open>isinstance(v, (dict, list))\<close>.\<close>

fun is_dict_or_list :: "pyval \<Rightarrow> bool" where
  "is_dict_or_list (PList xs) = True"
| "is_dict_or_list (PDict d) = True"
| "is_dict_or_list v = False"

text \<open>
  \<^verbatim>\<open>str(v)\<close>, also what an f-string inserts: a string is itself, every other value of
  \<open>pyval\<close> prints as its \<^verbatim>\<open>repr\<close>.
\<close>

definition py_str :: "('w, 't) externals \<Rightarrow> pyval \<Rightarrow> string" where
  "py_str ext v = (case v of PStr s \<Rightarrow> s | _ \<Rightarrow> py_repr ext v)"

section \<open>The tool catalog adapter\<close>

text \<open>
  The list comprehension of \<^verbatim>\<open>process_query\<close> that builds \<^verbatim>\<open>available_tools\<close>:
  one entry per descriptor of \<^verbatim>\<open>list_tools_response.tools\<close>.
\<close>

definition tool_entry :: "tool \<Rightarrow> pyval" where
  "tool_entry t =
     PDict
       [(''type'', PStr ''function''),
        (''function'',
         PDict
           [(''name'', PStr (name t)),
            (''description'', (case description t of None \<Rightarrow> PNone | Some d \<Rightarrow> PStr d)),
            (''parameters'',
             PDict
               [(''type'', PStr ''object''),
                (''properties'', dict_get (inputSchema t) ''properties'' (PDict [])),
                (''required'', dict_get (inputSchema t) ''required'' (PList []))])])]"

definition available_tools :: "tool list \<Rightarrow> pyval list" where
  "available_tools tools = map tool_entry tools"

section \<open>The orchestration loop\<close>

text \<open>The local variables of \<^verbatim>\<open>process_query\<close> that the tool loop changes, and the outside.\<close>

record 'w loop_state =
  messages :: "message list"
  tool_outputs :: "string list"
  trace :: "event list"
  world :: "'w"

definition user_message :: "string \<Rightarrow> message" where
  "user_message query = [(''role'', PStr ''user''), (''content'', PStr query)]"

definition tool_message :: "string \<Rightarrow> message" where
  "tool_message text = [(''role'', PStr ''tool''), (''content'', PStr text)]"

text \<open>
  The conversion of \<^verbatim>\<open>result.content\<close> to \<^verbatim>\<open>content_str\<close>; \<^verbatim>\<open>json.dumps\<close> may
  raise.
\<close>

definition content_to_str :: "('w, 't) externals \<Rightarrow> pyval \<Rightarrow> exn + string" where
  "content_to_str ext content =
     (if is_dict_or_list content then json_dumps ext content else Inr (py_str ext content))"

definition success_line :: "('w, 't) externals \<Rightarrow> pyval \<Rightarrow> string \<Rightarrow> string" where
  "success_line ext tool_name content_str =
     ''[Tool '' @ quote @ py_str ext tool_name @ quote @ '' returned: '' @ content_str @ '']''"

definition error_message :: "('w, 't) externals \<Rightarrow> pyval \<Rightarrow> exn \<Rightarrow> string" where
  "error_message ext tool_name e =
     ''Error calling tool '' @ quote @ py_str ext tool_name @ quote @ '': '' @ exn_str e"

text \<open>
  One iteration of \<^verbatim>\<open>for tool_call in response_message["tool_calls"]\<close>. Reading the
  name and the arguments happens before the \<^verbatim>\<open>try\<close>, so an exception there leaves the
  loop (\<open>Some e\<close>); the call and the conversion of its result are inside the
  \<^verbatim>\<open>try\<close>, and \<^verbatim>\<open>except Exception\<close> turns their exception into a message.
\<close>

definition tool_step ::
  "('w, 't) externals \<Rightarrow> 'w client_session \<Rightarrow> pyval \<Rightarrow> 'w loop_state \<Rightarrow> exn option \<times> 'w loop_state"
where
  "tool_step ext sess tool_call st =
     (case subscript2 tool_call ''function'' ''name'' of
        Inl e \<Rightarrow> (Some e, st)
      | Inr tool_name \<Rightarrow>
          (case subscript2 tool_call ''function'' ''arguments'' of
             Inl e \<Rightarrow> (Some e, st)
           | Inr tool_args \<Rightarrow>
               (case call_tool sess tool_name tool_args (world st) of
                  (r, w') \<Rightarrow>
                    (let st1 = st\<lparr>trace := trace st @ [ToolCall tool_name tool_args r],
                                  world := w'\<rparr>
                     in case (case r of Inl e \<Rightarrow> Inl e
                                      | Inr content \<Rightarrow> content_to_str ext content) of
                          Inr content_str \<Rightarrow>
                            (None,
                             st1\<lparr>tool_outputs :=
                                   tool_outputs st1 @ [success_line ext tool_name content_str],
                                 messages := messages st1 @ [tool_message content_str]\<rparr>)
                        | Inl e \<Rightarrow>
                            (None,
                             st1\<lparr>tool_outputs :=
                                   tool_outputs st1
                                     @ [''['' @ error_message ext tool_name e @ '']''],
                                 messages :=
                                   messages st1 @ [tool_message (error_message ext tool_name e)]\<rparr>)))))"

fun tool_loop ::
  "('w, 't) externals \<Rightarrow> 'w client_session \<Rightarrow> pyval list \<Rightarrow> 'w loop_state \<Rightarrow> exn option \<times> 'w loop_state"
where
  "tool_loop ext sess [] st = (None, st)"
| "tool_loop ext sess (tool_call # rest) st =
     (case tool_step ext sess tool_call st of
        (Some e, st') \<Rightarrow> (Some e, st')
      | (None, st') \<Rightarrow> tool_loop ext sess rest st')"

text \<open>
  What one run of \<^verbatim>\<open>process_query\<close> leaves: its return value (\<open>Inr\<close>) or the exception
  it raises (\<open>Inl\<close>), the conversation and the report lines (\<^verbatim>\<open>tool_outputs\<close>) as
  they stood then, the events, the world.
\<close>

record 'w outcome =
  result :: "exn + pyval"
  conversation :: "message list"
  reports :: "string list"
  events :: "event list"
  final_world :: "'w"

definition finish :: "exn + pyval \<Rightarrow> 'w loop_state \<Rightarrow> 'w outcome" where
  "finish r st =
     \<lparr>result = r, conversation = messages st, reports = tool_outputs st,
      events = trace st, final_world = world st\<rparr>"

text \<open>
  \<^verbatim>\<open>"..." + v\<close> for a \<open>v\<close> that is not a string raises \<^verbatim>\<open>TypeError\<close>.
\<close>

definition concat_error :: "pyval \<Rightarrow> exn" where
  "concat_error v =
     Exn ''TypeError''
       (''can only concatenate str (not '' @ dquote @ type_name v @ dquote @ '') to str'')"

text \<open>
  The end of \<^verbatim>\<open>process_query\<close>, from the second call of \<^verbatim>\<open>ollama.chat\<close> (made
  without \<^verbatim>\<open>tools\<close>) to the composition of the output.
\<close>

definition summarize :: "('w, 't) externals \<Rightarrow> string \<Rightarrow> 'w loop_state \<Rightarrow> 'w outcome" where
  "summarize ext mdl st =
     (case chat ext mdl (messages st) None (world st) of
        (r, w') \<Rightarrow>
          (let st1 = st\<lparr>trace := trace st @ [ModelCall mdl (messages st) None r], world := w'\<rparr>
           in case r of
                Inl e \<Rightarrow> finish (Inl e) st1
              | Inr final_response_message \<Rightarrow>
                  (case subscript (PDict final_response_message) ''content'' of
                     Inl e \<Rightarrow> finish (Inl e) st1
                   | Inr (PStr final_message) \<Rightarrow>
                       finish
                         (Inr (PStr (join newline (tool_outputs st1) @ newline @ newline
                                       @ final_message)))
                         st1
                   | Inr other \<Rightarrow> finish (Inl (concat_error other)) st1)))"

definition process_query ::
  "('w, 't) externals \<Rightarrow> 'w MCPClient \<Rightarrow> string \<Rightarrow> 'w \<Rightarrow> 'w outcome"
where
  "process_query ext self query w =
     (case session self of
        None \<Rightarrow>
          \<lparr>result = Inr (PStr ''Error: Not connected to a server.''),
           conversation = [], reports = [], events = [], final_world = w\<rparr>
      | Some sess \<Rightarrow>
          (case list_tools sess w of
             (lt, w1) \<Rightarrow>
               (let st1 = \<lparr>messages = [user_message query], tool_outputs = [],
                           trace = [ListTools], world = w1\<rparr>
                in case lt of
                     Inl e \<Rightarrow> finish (Inl e) st1
                   | Inr tools \<Rightarrow>
                       (case chat ext (model self) (messages st1)
                               (Some (available_tools tools)) (world st1) of
                          (r, w2) \<Rightarrow>
                            (let st2 = st1\<lparr>trace := trace st1
                                              @ [ModelCall (model self) (messages st1)
                                                   (Some (available_tools tools)) r],
                                            world := w2\<rparr>
                             in case r of
                                  Inl e \<Rightarrow> finish (Inl e) st2
                                | Inr response_message \<Rightarrow>
                                    (let st3 = st2\<lparr>messages := messages st2 @ [response_message]\<rparr>
                                     in if \<not> truthy (message_get response_message ''tool_calls'' PNone)
                                        then finish
                                               (Inr (message_get response_message ''content''
                                                       (PStr ''Sorry, I received no content.'')))
                                               st3
                                        else
                                          (case subscript (PDict response_message) ''tool_calls'' of
                                             Inl e \<Rightarrow> finish (Inl e) st3
                                           | Inr tcs \<Rightarrow>
                                               (case py_iter tcs of
                                                  Inl e \<Rightarrow> finish (Inl e) st3
                                                | Inr tool_calls \<Rightarrow>
                                                    (case tool_loop ext sess tool_calls st3 of
                                                       (Some e, st4) \<Rightarrow> finish (Inl e) st4
                                                     | (None, st4) \<Rightarrow>
                                                         summarize ext (model self) st4)))))))))"

section \<open>Connecting\<close>

text \<open>
  What \<^verbatim>\<open>connect_to_server\<close> leaves: the exception it raises, if any, the client
  (whose \<^verbatim>\<open>session\<close> it assigns), the events, the world.
\<close>

record 'w connected =
  raised :: "exn option"
  client :: "'w MCPClient"
  launch_events :: "event list"
  world_after :: "'w"

definition connect_to_server ::
  "('w, 't) externals \<Rightarrow> 'w MCPClient \<Rightarrow> string \<Rightarrow> 'w \<Rightarrow> 'w connected"
where
  "connect_to_server ext self server_script_path w =
     (let is_python = endswith server_script_path ''.py'';
          is_js = endswith server_script_path ''.js''
      in if \<not> (is_python \<or> is_js)
         then \<lparr>raised = Some (Exn ''ValueError'' ''Server script must be a .py or .js file''),
               client = self, launch_events = [], world_after = w\<rparr>
         else
           (let cmd = (if is_python then ''python'' else ''node'');
                params = \<lparr>command = cmd, args = [server_script_path], env = None\<rparr>
            in case stdio_client ext params w of
                 (Inl e, w1) \<Rightarrow>
                   \<lparr>raised = Some e, client = self, launch_events = [Launch params],
                    world_after = w1\<rparr>
               | (Inr transport, w1) \<Rightarrow>
                   (case ClientSession ext transport w1 of
                      (Inl e, w2) \<Rightarrow>
                        \<lparr>raised = Some e, client = self, launch_events = [Launch params],
                         world_after = w2\<rparr>
                    | (Inr sess, w2) \<Rightarrow>
                        (let self1 = self\<lparr>session := Some sess\<rparr>
                         in case initialize sess w2 of
                              (Inl e, w3) \<Rightarrow>
                                \<lparr>raised = Some e, client = self1,
                                 launch_events = [Launch params, Initialize], world_after = w3\<rparr>
                            | (Inr u, w3) \<Rightarrow>
                                (case list_tools sess w3 of
                                   (Inl e, w4) \<Rightarrow>
                                     \<lparr>raised = Some e, client = self1,
                                      launch_events = [Launch params, Initialize, ListTools],
                                      world_after = w4\<rparr>
                                 | (Inr tools, w4) \<Rightarrow>
                                     \<lparr>raised = None, client = self1,
                                      launch_events = [Launch params, Initialize, ListTools],
                                      world_after = w4\<rparr>)))))"

section \<open>Reading a trace\<close>

fun is_model_call :: "event \<Rightarrow> bool" where
  "is_model_call (ModelCall m ms ts r) = True"
| "is_model_call ev = False"

definition model_calls :: "event list \<Rightarrow> event list" where
  "model_calls evs = filter is_model_call evs"

fun is_tool_call :: "event \<Rightarrow> bool" where
  "is_tool_call (ToolCall n a r) = True"
| "is_tool_call ev = False"

definition tool_calls_made :: "event list \<Rightarrow> event list" where
  "tool_calls_made evs = filter is_tool_call evs"

text \<open>\<^verbatim>\<open>entry["function"]["parameters"][k]\<close> of an entry of the tool schema.\<close>

definition schema_parameter :: "pyval \<Rightarrow> string \<Rightarrow> exn + pyval" where
  "schema_parameter entry k =
     (case subscript2 entry ''function'' ''parameters'' of
        Inl e \<Rightarrow> Inl e
      | Inr p \<Rightarrow> subscript p k)"

text \<open>
  The name and the arguments that one iteration of the loop reads from a requested call
  (\<^verbatim>\<open>tool_call["function"]["name"]\<close>, \<^verbatim>\<open>tool_call["function"]["arguments"]\<close>), when
  both are there.
\<close>

definition request_of :: "pyval \<Rightarrow> (pyval \<times> pyval) option" where
  "request_of tool_call =
     (case subscript2 tool_call ''function'' ''name'' of
        Inl e \<Rightarrow> None
      | Inr n \<Rightarrow>
          (case subscript2 tool_call ''function'' ''arguments'' of
             Inl e \<Rightarrow> None
           | Inr a \<Rightarrow> Some (n, a)))"

text \<open>The name and the arguments a recorded tool call was made with.\<close>

fun requested :: "event \<Rightarrow> (pyval \<times> pyval) option" where
  "requested (ToolCall n a r) = Some (n, a)"
| "requested ev = None"

text \<open>
  The text that stands for a recorded tool call in the conversation, and its report
  line: those of the \<^verbatim>\<open>try\<close> branch when the call returned and its content was
  converted, those of the \<^verbatim>\<open>except\<close> branch otherwise.
\<close>

fun tool_text :: "('w, 't) externals \<Rightarrow> event \<Rightarrow> string" where
  "tool_text ext (ToolCall n a (Inl e)) = error_message ext n e"
| "tool_text ext (ToolCall n a (Inr c)) =
     (case content_to_str ext c of
        Inl e \<Rightarrow> error_message ext n e
      | Inr s \<Rightarrow> s)"
| "tool_text ext ev = []"

fun report_line :: "('w, 't) externals \<Rightarrow> event \<Rightarrow> string" where
  "report_line ext (ToolCall n a (Inl e)) = ''['' @ error_message ext n e @ '']''"
| "report_line ext (ToolCall n a (Inr c)) =
     (case content_to_str ext c of
        Inl e \<Rightarrow> ''['' @ error_message ext n e @ '']''
      | Inr s \<Rightarrow> success_line ext n s)"
| "report_line ext ev = []"

section \<open>A calculator provider and a scripted model\<close>

text \<open>
  The two tools of \<^verbatim>\<open>mcp_calculator_server.py\<close>, in the order the server declares them,
  and a descriptor whose input schema has neither \<^verbatim>\<open>properties\<close> nor \<^verbatim>\<open>required\<close>.
\<close>

definition add_tool :: tool where
  "add_tool =
     \<lparr>name = ''add'', description = Some ''Add two numbers'',
      inputSchema =
        [(''properties'',
          PDict [(''a'', PDict [(''type'', PStr ''integer'')]),
                 (''b'', PDict [(''type'', PStr ''integer'')])]),
         (''required'', PList [PStr ''a'', PStr ''b'']),
         (''type'', PStr ''object'')]\<rparr>"

definition math_web_search_tool :: tool where
  "math_web_search_tool =
     \<lparr>name = ''math_web_search'',
      description = Some ''Search the web for information about math'',
      inputSchema =
        [(''properties'', PDict [(''query'', PDict [(''type'', PStr ''string'')])]),
         (''required'', PList [PStr ''query'']),
         (''type'', PStr ''object'')]\<rparr>"

definition bare_tool :: tool where
  "bare_tool = \<lparr>name = ''ping'', description = None, inputSchema = []\<rparr>"

text \<open>
  A session on that provider. The world counts the requests served. A call of a name
  that is not in the catalog raises.
\<close>

definition calculator_call :: "pyval \<Rightarrow> pyval \<Rightarrow> exn + pyval" where
  "calculator_call n a =
     (if n = PStr ''add'' then Inr (PStr ''4'')
      else if n = PStr ''math_web_search''
      then Inr (PStr ''Sorry, the web search is currently unavailable.'')
      else Inl (Exn ''McpError'' ''Unknown tool''))"

definition calculator_session :: "nat client_session" where
  "calculator_session =
     \<lparr>initialize = (\<lambda>w. (Inr (), Suc w)),
      list_tools = (\<lambda>w. (Inr [add_tool, math_web_search_tool], Suc w)),
      call_tool = (\<lambda>n a w. (calculator_call n a, Suc w))\<rparr>"

definition broken_session :: "nat client_session" where
  "broken_session =
     \<lparr>initialize = (\<lambda>w. (Inr (), Suc w)),
      list_tools = (\<lambda>w. (Inl (Exn ''McpError'' ''Connection closed''), Suc w)),
      call_tool = (\<lambda>n a w. (Inl (Exn ''McpError'' ''Connection closed''), Suc w))\<rparr>"

text \<open>
  A backend that answers the call made with a tool schema by \<open>decision\<close> and the call
  made without by \<open>summary\<close>.
\<close>

definition scripted :: "exn + message \<Rightarrow> exn + message \<Rightarrow> (nat, unit) externals" where
  "scripted decision summary =
     \<lparr>chat = (\<lambda>mdl msgs tools w.
               ((case tools of Some sch \<Rightarrow> decision | None \<Rightarrow> summary), Suc w)),
      json_dumps = (\<lambda>v. Inl (Exn ''TypeError'' ''Object is not JSON serializable'')),
      py_repr = (\<lambda>v. ''<object>''),
      stdio_client = (\<lambda>params w. (Inr (), Suc w)),
      ClientSession = (\<lambda>t w. (Inr calculator_session, w))\<rparr>"

definition disconnected_client :: "nat MCPClient" where
  "disconnected_client = \<lparr>model = ''gpt-oss:20b'', session = None\<rparr>"

definition broken_client :: "nat MCPClient" where
  "broken_client = \<lparr>model = ''gpt-oss:20b'', session = Some broken_session\<rparr>"

definition calculator_client :: "nat MCPClient" where
  "calculator_client = \<lparr>model = ''gpt-oss:20b'', session = Some calculator_session\<rparr>"

definition tool_request :: "string \<Rightarrow> pyval \<Rightarrow> pyval" where
  "tool_request n a = PDict [(''function'', PDict [(''name'', PStr n), (''arguments'', a)])]"

definition assistant_text :: "string \<Rightarrow> message" where
  "assistant_text s = [(''role'', PStr ''assistant''), (''content'', PStr s)]"

definition assistant_calls :: "pyval list \<Rightarrow> message" where
  "assistant_calls calls =
     [(''role'', PStr ''assistant''), (''content'', PStr []), (''tool_calls'', PList calls)]"

definition assistant_text_and_calls :: "string \<Rightarrow> pyval list \<Rightarrow> message" where
  "assistant_text_and_calls s calls =
     [(''role'', PStr ''assistant''), (''content'', PStr s), (''tool_calls'', PList calls)]"

text \<open>Decisions of the model, for the tools of the calculator provider.\<close>

definition search_request :: pyval where
  "search_request = tool_request ''math_web_search'' (PDict [(''query'', PStr ''pi'')])"

definition add_request :: pyval where
  "add_request = tool_request ''add'' (PDict [(''a'', PInt 2), (''b'', PInt 2)])"

definition divide_request :: pyval where
  "divide_request = tool_request ''divide'' (PDict [(''a'', PInt 2), (''b'', PInt 0)])"

text \<open>
  The definitions that evaluating a run on the calculator provider unfolds.
\<close>

lemmas run_defs =
  process_query_def summarize_def finish_def tool_step_def Let_def
  scripted_def calculator_client_def broken_client_def disconnected_client_def
  calculator_session_def broken_session_def
  calculator_call_def
  assistant_calls_def assistant_text_def assistant_text_and_calls_def tool_request_def
  search_request_def add_request_def divide_request_def
  dict_get_def message_get_def message_fields_def subscript_def subscript2_def request_of_def
  content_to_str_def py_str_def success_line_def error_message_def
  tool_message_def user_message_def quote_def newline_def
  model_calls_def tool_calls_made_def

section \<open>The tool loop\<close>

text \<open>
  An iteration on a requested call whose name and arguments can be read calls the
  session once and appends one message and one report line, whatever the session
  answers.
\<close>

lemma tool_step_request:
  assumes "request_of tc = Some (n, a)"
    and "call_tool sess n a (world st) = (r, w')"
  shows "tool_step ext sess tc st =
           (None,
            st\<lparr>messages := messages st @ [tool_message (tool_text ext (ToolCall n a r))],
               tool_outputs := tool_outputs st @ [report_line ext (ToolCall n a r)],
               trace := trace st @ [ToolCall n a r],
               world := w'\<rparr>)"
  using assms
  by (cases r) (auto simp: tool_step_def request_of_def Let_def split: sum.splits)

text \<open>
  The loop over requested calls that can all be read runs to its end: the calls are
  made in the order of the list, and the messages and report lines are appended in that
  order.
\<close>

lemma tool_loop_requests:
  assumes "map request_of calls = map Some reqs"
  shows "\<exists>evs st'. tool_loop ext sess calls st = (None, st')
           \<and> map requested evs = map Some reqs
           \<and> trace st' = trace st @ evs
           \<and> messages st' = messages st @ map (\<lambda>ev. tool_message (tool_text ext ev)) evs
           \<and> tool_outputs st' = tool_outputs st @ map (report_line ext) evs"
  using assms
proof (induction calls arbitrary: reqs st)
  case Nil
  then show ?case by simp
next
  case (Cons tc calls)
  then obtain n a reqs' where reqs: "reqs = (n, a) # reqs'"
    and tc: "request_of tc = Some (n, a)"
    and rest: "map request_of calls = map Some reqs'"
    by (cases reqs) auto
  obtain r w' where call: "call_tool sess n a (world st) = (r, w')"
    by (cases "call_tool sess n a (world st)")
  define st1 where "st1 = st\<lparr>messages := messages st @ [tool_message (tool_text ext (ToolCall n a r))],
               tool_outputs := tool_outputs st @ [report_line ext (ToolCall n a r)],
               trace := trace st @ [ToolCall n a r],
               world := w'\<rparr>"
  have step: "tool_step ext sess tc st = (None, st1)"
    unfolding st1_def by (rule tool_step_request [OF tc call])
  from Cons.IH [OF rest, of st1] obtain evs st' where
    loop: "tool_loop ext sess calls st1 = (None, st')"
    and ev: "map requested evs = map Some reqs'"
    and tr: "trace st' = trace st1 @ evs"
    and ms: "messages st' = messages st1 @ map (\<lambda>ev. tool_message (tool_text ext ev)) evs"
    and outs: "tool_outputs st' = tool_outputs st1 @ map (report_line ext) evs"
    by blast
  have "tool_loop ext sess (tc # calls) st = (None, st')"
    using step loop by simp
  moreover have "map requested (ToolCall n a r # evs) = map Some reqs"
    using ev reqs by simp
  moreover have "trace st' = trace st @ (ToolCall n a r # evs)"
    using tr by (simp add: st1_def)
  moreover have "messages st' = messages st @ map (\<lambda>ev. tool_message (tool_text ext ev)) (ToolCall n a r # evs)"
    using ms by (simp add: st1_def)
  moreover have "tool_outputs st' = tool_outputs st @ map (report_line ext) (ToolCall n a r # evs)"
    using outs by (simp add: st1_def)
  ultimately show ?case by blast
qed

lemma requested_only_tool_calls:
  "map requested evs = map Some reqs \<Longrightarrow>
     filter is_tool_call evs = evs \<and> filter is_model_call evs = []"
proof (induction evs arbitrary: reqs)
  case Nil
  then show ?case by simp
next
  case (Cons ev evs)
  then obtain q reqs' where "reqs = q # reqs'" "requested ev = Some q"
    "map requested evs = map Some reqs'"
    by (cases reqs) auto
  with Cons.IH [of reqs'] show ?case by (cases ev) auto
qed

text \<open>
  Without any assumption on the requested calls: an iteration either leaves the loop
  with the state unchanged or records one tool call, and the loop records tool calls
  only.
\<close>

lemma tool_step_cases:
  assumes "tool_step ext sess tc st = (x, st')"
  shows "(\<exists>e. x = Some e \<and> st' = st)
         \<or> (x = None \<and> (\<exists>n a r. trace st' = trace st @ [ToolCall n a r]))"
proof (cases "subscript2 tc ''function'' ''name''")
  case (Inl e)
  with assms show ?thesis by (auto simp: tool_step_def)
next
  case name: (Inr n)
  show ?thesis
  proof (cases "subscript2 tc ''function'' ''arguments''")
    case (Inl e)
    with assms name show ?thesis by (auto simp: tool_step_def)
  next
    case (Inr a)
    obtain r w' where call: "call_tool sess n a (world st) = (r, w')"
      by (cases "call_tool sess n a (world st)")
    have "request_of tc = Some (n, a)"
      using name Inr by (simp add: request_of_def)
    from tool_step_request [OF this call, of ext] assms show ?thesis
      by auto
  qed
qed

lemma tool_loop_trace:
  assumes "tool_loop ext sess calls st = (x, st')"
  shows "\<exists>evs. trace st' = trace st @ evs \<and> list_all is_tool_call evs
           \<and> (x = None \<longrightarrow> length evs = length calls)"
  using assms
proof (induction calls arbitrary: st)
  case Nil
  then show ?case by simp
next
  case (Cons tc calls)
  obtain y st1 where step: "tool_step ext sess tc st = (y, st1)"
    by (cases "tool_step ext sess tc st")
  from tool_step_cases [OF step] show ?case
  proof
    assume "\<exists>e. y = Some e \<and> st1 = st"
    then obtain e where "y = Some e" "st1 = st" by blast
    with step Cons.prems have "x = Some e" "st' = st" by simp_all
    then show ?thesis by simp
  next
    assume "y = None \<and> (\<exists>n a r. trace st1 = trace st @ [ToolCall n a r])"
    then obtain n a r where y: "y = None" and tr1: "trace st1 = trace st @ [ToolCall n a r]"
      by blast
    from y step Cons.prems have "tool_loop ext sess calls st1 = (x, st')" by simp
    from Cons.IH [OF this] obtain evs where
      "trace st' = trace st1 @ evs" "list_all is_tool_call evs"
      "x = None \<longrightarrow> length evs = length calls"
      by blast
    with tr1 have "trace st' = trace st @ (ToolCall n a r # evs)
                   \<and> list_all is_tool_call (ToolCall n a r # evs)
                   \<and> (x = None \<longrightarrow> length (ToolCall n a r # evs) = length (tc # calls))"
      by simp
    then show ?thesis by blast
  qed
qed

lemma only_tool_calls:
  "list_all is_tool_call evs \<Longrightarrow>
     filter is_tool_call evs = evs \<and> filter is_model_call evs = []"
proof (induction evs)
  case Nil
  then show ?case by simp
next
  case (Cons ev evs)
  then show ?case by (cases ev) auto
qed

lemma truthy_iter_nonempty:
  "truthy v \<Longrightarrow> py_iter v = Inr xs \<Longrightarrow> xs \<noteq> []"
  by (cases v) auto

section \<open>The summary call\<close>

lemma summarize_events:
  assumes "chat ext mdl (messages st) None (world st) = (r, w')"
  shows "events (summarize ext mdl st) = trace st @ [ModelCall mdl (messages st) None r]"
  using assms by (simp add: summarize_def finish_def Let_def split: sum.splits pyval.splits)

lemma summarize_result:
  assumes "chat ext mdl (messages st) None (world st) = (r, w')"
  shows "result (summarize ext mdl st)
           = (case r of
                Inl e \<Rightarrow> Inl e
              | Inr fm \<Rightarrow>
                  (case subscript (PDict fm) ''content'' of
                     Inl e \<Rightarrow> Inl e
                   | Inr (PStr s) \<Rightarrow>
                       Inr (PStr (join newline (tool_outputs st) @ newline @ newline @ s))
                   | Inr other \<Rightarrow> Inl (concat_error other)))"
  using assms by (simp add: summarize_def finish_def Let_def split: sum.splits pyval.splits)

lemma summarize_conversation:
  "conversation (summarize ext mdl st) = messages st
   \<and> reports (summarize ext mdl st) = tool_outputs st"
  by (cases "chat ext mdl (messages st) None (world st)")
     (auto simp: summarize_def finish_def Let_def split: sum.splits pyval.splits)

section \<open>The shape of a run\<close>

text \<open>
  On the tool-call path with readable requests, \<^verbatim>\<open>process_query\<close> lists the tools,
  calls the model, makes the requested calls and calls the model again.
\<close>

lemma process_query_tool_path:
  assumes sess: "session self = Some sess"
    and lt: "list_tools sess w = (Inr tools, w1)"
    and dec: "chat ext (model self) [user_message query] (Some (available_tools tools)) w1
                = (Inr m, w2)"
    and tcs: "map_of m ''tool_calls'' = Some (PList calls)"
    and ne: "calls \<noteq> []"
    and wf: "map request_of calls = map Some reqs"
  shows "\<exists>evs st. process_query ext self query w = summarize ext (model self) st
           \<and> map requested evs = map Some reqs
           \<and> trace st = [ListTools,
                          ModelCall (model self) [user_message query]
                            (Some (available_tools tools)) (Inr m)] @ evs
           \<and> messages st = [user_message query, m]
                              @ map (\<lambda>ev. tool_message (tool_text ext ev)) evs
           \<and> tool_outputs st = map (report_line ext) evs"
proof -
  define st3 :: "'a loop_state" where
    "st3 = \<lparr>messages = [user_message query, m], tool_outputs = [],
            trace = [ListTools,
                     ModelCall (model self) [user_message query]
                       (Some (available_tools tools)) (Inr m)],
            world = w2\<rparr>"
  from tool_loop_requests [OF wf, of ext sess st3] obtain evs st where
    loop: "tool_loop ext sess calls st3 = (None, st)"
    and ev: "map requested evs = map Some reqs"
    and tr: "trace st = trace st3 @ evs"
    and ms: "messages st = messages st3 @ map (\<lambda>ev. tool_message (tool_text ext ev)) evs"
    and outs: "tool_outputs st = tool_outputs st3 @ map (report_line ext) evs"
    by blast
  have "process_query ext self query w = summarize ext (model self) st"
    using sess lt dec tcs ne loop
    by (simp add: process_query_def Let_def message_get_def message_fields_def dict_get_def
          subscript_def st3_def)
  with ev tr ms outs show ?thesis
    by (auto simp: st3_def)
qed

lemma tool_path_outcome:
  assumes sess: "session self = Some sess"
    and lt: "list_tools sess w = (Inr tools, w1)"
    and dec: "chat ext (model self) [user_message query] (Some (available_tools tools)) w1
                = (Inr m, w2)"
    and tcs: "map_of m ''tool_calls'' = Some (PList calls)"
    and ne: "calls \<noteq> []"
    and wf: "map request_of calls = map Some reqs"
  shows "\<exists>evs r.
           map requested evs = map Some reqs
           \<and> events (process_query ext self query w)
               = [ListTools,
                  ModelCall (model self) [user_message query]
                    (Some (available_tools tools)) (Inr m)]
                 @ evs
                 @ [ModelCall (model self) (conversation (process_query ext self query w))
                      None r]
           \<and> conversation (process_query ext self query w)
               = [user_message query, m] @ map (\<lambda>ev. tool_message (tool_text ext ev)) evs
           \<and> reports (process_query ext self query w) = map (report_line ext) evs
           \<and> result (process_query ext self query w)
               = (case r of
                    Inl e \<Rightarrow> Inl e
                  | Inr fm \<Rightarrow>
                      (case subscript (PDict fm) ''content'' of
                         Inl e \<Rightarrow> Inl e
                       | Inr (PStr s) \<Rightarrow>
                           Inr (PStr (join newline (map (report_line ext) evs)
                                        @ newline @ newline @ s))
                       | Inr other \<Rightarrow>
                           Inl (concat_error other)))"
proof -
  from process_query_tool_path [OF assms] obtain evs st where
    pq: "process_query ext self query w = summarize ext (model self) st"
    and ev: "map requested evs = map Some reqs"
    and tr: "trace st = [ListTools,
                          ModelCall (model self) [user_message query]
                            (Some (available_tools tools)) (Inr m)] @ evs"
    and ms: "messages st = [user_message query, m]
                              @ map (\<lambda>ev. tool_message (tool_text ext ev)) evs"
    and outs: "tool_outputs st = map (report_line ext) evs"
    by blast
  obtain r w' where ch: "chat ext (model self) (messages st) None (world st) = (r, w')"
    by (cases "chat ext (model self) (messages st) None (world st)")
  have conv: "conversation (process_query ext self query w) = messages st"
    and reps: "reports (process_query ext self query w) = tool_outputs st"
    using summarize_conversation [of ext "model self" st] pq by simp_all
  have evs: "events (process_query ext self query w)
          = trace st @ [ModelCall (model self) (messages st) None r]"
    using summarize_events [OF ch] pq by simp
  have res: "result (process_query ext self query w)
               = (case r of
                    Inl e \<Rightarrow> Inl e
                  | Inr fm \<Rightarrow>
                      (case subscript (PDict fm) ''content'' of
                         Inl e \<Rightarrow> Inl e
                       | Inr (PStr s) \<Rightarrow>
                           Inr (PStr (join newline (tool_outputs st)
                                        @ newline @ newline @ s))
                       | Inr other \<Rightarrow>
                           Inl (concat_error other)))"
    using summarize_result [OF ch] pq by simp
  show ?thesis
    using ev conv reps tr ms outs evs res [unfolded outs]
    by (intro exI [of _ evs] exI [of _ r]) simp
qed

lemma tool_path_calls:
  assumes "map requested evs = map Some reqs"
    and "events out = [ListTools, ModelCall mdl c1 sch r1] @ evs @ [ModelCall mdl c2 None r2]"
  shows "tool_calls_made (events out) = evs"
    and "model_calls (events out) = [ModelCall mdl c1 sch r1, ModelCall mdl c2 None r2]"
    and "last (events out) = ModelCall mdl c2 None r2"
  using requested_only_tool_calls [OF assms(1)] assms(2)
  by (simp_all add: tool_calls_made_def model_calls_def)

text \<open>
  Every run of a connected client whose listing succeeded starts with the listing and
  the decision call; it ends there, or after some tool calls, or after at least one tool
  call and a second model call.
\<close>

lemma process_query_connected:
  assumes sess: "session self = Some sess"
    and lt: "list_tools sess w = (Inr tools, w1)"
    and ch: "chat ext (model self) [user_message query] (Some (available_tools tools)) w1
               = (r, w2)"
  shows "\<exists>evs. list_all is_tool_call evs
     \<and> (events (process_query ext self query w)
          = [ListTools,
             ModelCall (model self) [user_message query] (Some (available_tools tools)) r]
            @ evs
        \<or> (\<exists>r2.
              evs \<noteq> []
              \<and> events (process_query ext self query w)
                  = [ListTools,
                     ModelCall (model self) [user_message query]
                       (Some (available_tools tools)) r]
                    @ evs
                    @ [ModelCall (model self)
                         (conversation (process_query ext self query w)) None r2]
              \<and> (\<forall>e. r2 = Inl e \<longrightarrow> result (process_query ext self query w) = Inl e)))"
proof -
  let ?decision =
    "ModelCall (model self) [user_message query] (Some (available_tools tools)) r"
  have no_loop: ?thesis
    if "events (process_query ext self query w) = [ListTools, ?decision] @ evs"
      and "list_all is_tool_call evs" for evs
    using that by (intro exI [of _ evs]) blast
  show ?thesis
  proof (cases r)
    case (Inl e)
    with sess lt ch
    have "events (process_query ext self query w) = [ListTools, ?decision] @ []"
      by (simp add: process_query_def finish_def)
    then show ?thesis by (rule no_loop) simp
  next
    case m: (Inr m)
    show ?thesis
    proof (cases "truthy (message_get m ''tool_calls'' PNone)")
      case False
      with sess lt ch m
      have "events (process_query ext self query w) = [ListTools, ?decision] @ []"
        by (simp add: process_query_def finish_def)
      then show ?thesis by (rule no_loop) simp
    next
      case True
      then obtain v where v: "map_of m ''tool_calls'' = Some v" and tv: "truthy v"
        by (cases "map_of m ''tool_calls''")
           (auto simp: message_get_def message_fields_def dict_get_def)
      show ?thesis
      proof (cases "py_iter v")
        case (Inl e)
        with sess lt ch m True v
        have "events (process_query ext self query w) = [ListTools, ?decision] @ []"
          by (simp add: process_query_def finish_def subscript_def)
        then show ?thesis by (rule no_loop) simp
      next
        case tcs: (Inr tcs)
        define st3 :: "'a loop_state" where
          "st3 = \<lparr>messages = [user_message query, m], tool_outputs = [],
                  trace = [ListTools, ?decision], world = w2\<rparr>"
        obtain x st4 where loop: "tool_loop ext sess tcs st3 = (x, st4)"
          by (cases "tool_loop ext sess tcs st3")
        from tool_loop_trace [OF loop] obtain evs where
          tr: "trace st4 = [ListTools, ?decision] @ evs"
          and tool: "list_all is_tool_call evs"
          and len: "x = None \<longrightarrow> length evs = length tcs"
          by (auto simp: st3_def)
        show ?thesis
        proof (cases x)
          case (Some e)
          with sess lt ch m True v tcs loop
          have "process_query ext self query w = finish (Inl e) st4"
            by (simp add: process_query_def subscript_def st3_def)
          with tr have "events (process_query ext self query w) = [ListTools, ?decision] @ evs"
            by (simp add: finish_def)
          then show ?thesis using tool by (rule no_loop)
        next
          case None
          with sess lt ch m True v tcs loop
          have pq: "process_query ext self query w = summarize ext (model self) st4"
            by (simp add: process_query_def subscript_def st3_def)
          obtain r2 w3 where ch2:
            "chat ext (model self) (messages st4) None (world st4) = (r2, w3)"
            by (cases "chat ext (model self) (messages st4) None (world st4)")
          have conv: "conversation (process_query ext self query w) = messages st4"
            using summarize_conversation [of ext "model self" st4] pq by simp
          have ev: "events (process_query ext self query w)
                      = [ListTools, ?decision] @ evs
                        @ [ModelCall (model self)
                             (conversation (process_query ext self query w)) None r2]"
            using summarize_events [OF ch2] pq tr conv by simp
          have res: "\<forall>e. r2 = Inl e \<longrightarrow> result (process_query ext self query w) = Inl e"
            using summarize_result [OF ch2] pq by simp
          have "evs \<noteq> []"
            using truthy_iter_nonempty [OF tv tcs] len None by auto
          with tool ev res show ?thesis
            by (intro exI [of _ evs]) blast
        qed
      qed
    qed
  qed
qed

lemma process_query_events:
  "\<exists>evs. list_all is_tool_call evs
     \<and> (events (process_query ext self query w) = []
        \<or> events (process_query ext self query w) = [ListTools]
        \<or> (\<exists>sch r. events (process_query ext self query w)
                      = [ListTools, ModelCall (model self) [user_message query] (Some sch) r]
                        @ evs)
        \<or> (\<exists>sch r1 r2.
              evs \<noteq> []
              \<and> events (process_query ext self query w)
                  = [ListTools, ModelCall (model self) [user_message query] (Some sch) r1]
                    @ evs
                    @ [ModelCall (model self)
                         (conversation (process_query ext self query w)) None r2]
              \<and> (\<forall>e. r2 = Inl e \<longrightarrow> result (process_query ext self query w) = Inl e)))"
proof (cases "session self")
  case None
  then have "events (process_query ext self query w) = []"
    by (simp add: process_query_def)
  then show ?thesis
    by (intro exI [of _ "[]"]) simp
next
  case (Some sess)
  obtain lt w1 where lt: "list_tools sess w = (lt, w1)"
    by (cases "list_tools sess w")
  show ?thesis
  proof (cases lt)
    case (Inl e)
    with Some lt have "events (process_query ext self query w) = [ListTools]"
      by (simp add: process_query_def finish_def)
    then show ?thesis
      by (intro exI [of _ "[]"]) simp
  next
    case (Inr tools)
    obtain r w2 where ch:
      "chat ext (model self) [user_message query] (Some (available_tools tools)) w1 = (r, w2)"
      by (cases "chat ext (model self) [user_message query] (Some (available_tools tools)) w1")
    from process_query_connected [OF Some lt [unfolded Inr] ch] show ?thesis
      by blast
  qed
qed

lemma decision_call_schema:
  assumes "session self = Some sess"
    and "list_tools sess w = (Inr ts, w1)"
  shows "\<exists>r. events (process_query ext self query w) ! 1
              = ModelCall (model self) [user_message query] (Some (available_tools ts)) r"
proof -
  obtain r w2 where ch:
    "chat ext (model self) [user_message query] (Some (available_tools ts)) w1 = (r, w2)"
    by (cases "chat ext (model self) [user_message query] (Some (available_tools ts)) w1")
  from process_query_connected [OF assms ch]
  have "events (process_query ext self query w) ! 1
          = ModelCall (model self) [user_message query] (Some (available_tools ts)) r"
    by auto
  then show ?thesis ..
qed

section \<open>The entries of the tool schema\<close>

lemma tool_entry_fields:
  "subscript (tool_entry t) ''type'' = Inr (PStr ''function'')"
  "subscript2 (tool_entry t) ''function'' ''name'' = Inr (PStr (name t))"
  "subscript2 (tool_entry t) ''function'' ''description''
     = Inr (case description t of None \<Rightarrow> PNone | Some d \<Rightarrow> PStr d)"
  "schema_parameter (tool_entry t) ''type'' = Inr (PStr ''object'')"
  "schema_parameter (tool_entry t) ''properties''
     = Inr (case map_of (inputSchema t) ''properties'' of
              None \<Rightarrow> PDict []
            | Some v \<Rightarrow> v)"
  "schema_parameter (tool_entry t) ''required''
     = Inr (case map_of (inputSchema t) ''required'' of
              None \<Rightarrow> PList []
            | Some v \<Rightarrow> v)"
  by (simp_all add: tool_entry_def schema_parameter_def subscript2_def subscript_def
        dict_get_def)

section \<open>The suffix of the server script\<close>

lemma js_is_not_python:
  "endswith p ''.js'' \<Longrightarrow> \<not> endswith p ''.py''"
  by (auto simp: endswith_def)

lemma connect_launches_once:
  assumes "endswith p ''.py'' \<or> endswith p ''.js''"
  shows "\<exists>rest. launch_events (connect_to_server ext self p w)
                  = Launch \<lparr>command = (if endswith p ''.py'' then ''python'' else ''node''),
                            args = [p], env = None\<rparr> # rest
                \<and> (\<forall>q. Launch q \<notin> set rest)"
  using assms
  by (auto simp: connect_to_server_def Let_def split: prod.splits sum.splits)

section \<open>Order of the tool messages\<close>

text \<open>
  C1. When the decision call returns a non-empty list of requested tool calls (each
  carrying a name and arguments), \<^verbatim>\<open>process_query\<close> makes exactly two model calls,
  makes one tool call per request, in the order the model emitted the requests, and the
  \<^verbatim>\<open>tool\<close> messages it appends after the user message and the assistant message are
  those of these calls, in that same order. The catalog plays no part in the order.
\<close>

theorem tool_messages_in_request_order:
  assumes "session self = Some sess"
    and "list_tools sess w = (Inr tools, w1)"
    and "chat ext (model self) [user_message query] (Some (available_tools tools)) w1
           = (Inr m, w2)"
    and "map_of m ''tool_calls'' = Some (PList calls)"
    and "calls \<noteq> []"
    and "map request_of calls = map Some reqs"
  shows "length (model_calls (events (process_query ext self query w))) = 2
         \<and> length (tool_calls_made (events (process_query ext self query w))) = length calls
         \<and> map requested (tool_calls_made (events (process_query ext self query w)))
             = map Some reqs
         \<and> conversation (process_query ext self query w)
             = [user_message query, m]
               @ map (\<lambda>ev. tool_message (tool_text ext ev))
                   (tool_calls_made (events (process_query ext self query w)))"
proof -
  from tool_path_outcome [OF assms] obtain evs r where
    ev: "map requested evs = map Some reqs"
    and tr: "events (process_query ext self query w)
               = [ListTools,
                  ModelCall (model self) [user_message query]
                    (Some (available_tools tools)) (Inr m)]
                 @ evs
                 @ [ModelCall (model self) (conversation (process_query ext self query w))
                      None r]"
    and conv: "conversation (process_query ext self query w)
               = [user_message query, m] @ map (\<lambda>ev. tool_message (tool_text ext ev)) evs"
    by blast
  have len: "length evs = length calls"
    using ev assms(6) by (metis length_map)
  show ?thesis
    using tool_path_calls [OF ev tr] conv len ev by simp
qed

text \<open>
  The catalog of the calculator provider is \<open>[add, math_web_search]\<close>; the model
  requests \<open>[math_web_search, add]\<close>; the \<^verbatim>\<open>tool\<close> messages come in the order of
  the requests.
\<close>

theorem tool_messages_in_request_order_witness:
  "session calculator_client = Some calculator_session
   \<and> list_tools calculator_session 0 = (Inr [add_tool, math_web_search_tool], 1)
   \<and> map request_of [search_request, add_request]
       = map Some [(PStr ''math_web_search'', PDict [(''query'', PStr ''pi'')]),
                   (PStr ''add'', PDict [(''a'', PInt 2), (''b'', PInt 2)])]
   \<and> length (model_calls (events
         (process_query
            (scripted (Inr (assistant_calls [search_request, add_request]))
               (Inr (assistant_text ''The answer is 4.'')))
            calculator_client ''what is 2+2'' 0))) = 2
   \<and> conversation
         (process_query
            (scripted (Inr (assistant_calls [search_request, add_request]))
               (Inr (assistant_text ''The answer is 4.'')))
            calculator_client ''what is 2+2'' 0)
       = [user_message ''what is 2+2'',
          assistant_calls [search_request, add_request],
          tool_message ''Sorry, the web search is currently unavailable.'',
          tool_message ''4'']"
proof -
  let ?m = "assistant_calls [search_request, add_request]"
  let ?ext = "scripted (Inr ?m) (Inr (assistant_text ''The answer is 4.''))"
  let ?out = "process_query ?ext calculator_client ''what is 2+2'' 0"
  have h1: "session calculator_client = Some calculator_session"
    by (simp add: calculator_client_def)
  have h2: "list_tools calculator_session 0 = (Inr [add_tool, math_web_search_tool], 1)"
    by (simp add: calculator_session_def)
  have h3: "chat ?ext (model calculator_client) [user_message ''what is 2+2'']
              (Some (available_tools [add_tool, math_web_search_tool])) 1 = (Inr ?m, 2)"
    by (simp add: scripted_def)
  have h4: "map_of ?m ''tool_calls'' = Some (PList [search_request, add_request])"
    by (simp add: assistant_calls_def)
  have h5: "[search_request, add_request] \<noteq> []"
    by simp
  have h6: "map request_of [search_request, add_request]
       = map Some [(PStr ''math_web_search'', PDict [(''query'', PStr ''pi'')]),
                   (PStr ''add'', PDict [(''a'', PInt 2), (''b'', PInt 2)])]"
    by (simp add: run_defs)
  have made: "tool_calls_made (events ?out)
       = [ToolCall (PStr ''math_web_search'') (PDict [(''query'', PStr ''pi'')])
            (Inr (PStr ''Sorry, the web search is currently unavailable.'')),
          ToolCall (PStr ''add'') (PDict [(''a'', PInt 2), (''b'', PInt 2)])
            (Inr (PStr ''4''))]"
    by (simp add: run_defs)
  show ?thesis
    using tool_messages_in_request_order [OF h1 h2 h3 h4 h5 h6] h1 h2 h6 made
    by (simp add: content_to_str_def py_str_def)
qed

section \<open>Failing tool calls\<close>

text \<open>
  C2. A requested tool call that fails does not leave the loop: every requested call is
  made, in order, whatever the earlier ones answered, and the summary model call is made
  on the whole conversation. Each call leaves one \<^verbatim>\<open>tool\<close> message and one report
  line at the position of its request; for a call that raised \<open>e\<close> (an unknown tool
  name, a transport error) or whose content could not be converted they hold the text
  \<open>Error calling tool 'name': e\<close>, for a call that returned they hold the text of its
  content.
\<close>

theorem failed_tool_call_does_not_abort:
  assumes "session self = Some sess"
    and "list_tools sess w = (Inr tools, w1)"
    and "chat ext (model self) [user_message query] (Some (available_tools tools)) w1
           = (Inr m, w2)"
    and "map_of m ''tool_calls'' = Some (PList calls)"
    and "calls \<noteq> []"
    and "map request_of calls = map Some reqs"
  shows "map requested (tool_calls_made (events (process_query ext self query w)))
           = map Some reqs
         \<and> (\<exists>r. last (events (process_query ext self query w))
                  = ModelCall (model self) (conversation (process_query ext self query w))
                      None r)
         \<and> length (conversation (process_query ext self query w)) = length reqs + 2
         \<and> length (reports (process_query ext self query w)) = length reqs
         \<and> (\<forall>i < length reqs. \<forall>n a e.
               tool_calls_made (events (process_query ext self query w)) ! i
                 = ToolCall n a (Inl e) \<longrightarrow>
               conversation (process_query ext self query w) ! (i + 2)
                 = [(''role'', PStr ''tool''),
                    (''content'',
                     PStr (''Error calling tool '' @ quote @ py_str ext n @ quote @ '': ''
                             @ exn_str e))]
               \<and> reports (process_query ext self query w) ! i
                   = ''['' @ ''Error calling tool '' @ quote @ py_str ext n @ quote @ '': ''
                       @ exn_str e @ '']'')
         \<and> (\<forall>i < length reqs. \<forall>n a c s.
               tool_calls_made (events (process_query ext self query w)) ! i
                 = ToolCall n a (Inr c) \<and> content_to_str ext c = Inr s \<longrightarrow>
               conversation (process_query ext self query w) ! (i + 2)
                 = [(''role'', PStr ''tool''), (''content'', PStr s)]
               \<and> reports (process_query ext self query w) ! i
                   = ''[Tool '' @ quote @ py_str ext n @ quote @ '' returned: '' @ s @ '']'')
         \<and> (\<forall>i < length reqs. \<forall>n a c e.
               tool_calls_made (events (process_query ext self query w)) ! i
                 = ToolCall n a (Inr c) \<and> content_to_str ext c = Inl e \<longrightarrow>
               conversation (process_query ext self query w) ! (i + 2)
                 = [(''role'', PStr ''tool''),
                    (''content'',
                     PStr (''Error calling tool '' @ quote @ py_str ext n @ quote @ '': ''
                             @ exn_str e))]
               \<and> reports (process_query ext self query w) ! i
                   = ''['' @ ''Error calling tool '' @ quote @ py_str ext n @ quote @ '': ''
                       @ exn_str e @ '']'')"
proof -
  let ?out = "process_query ext self query w"
  from tool_path_outcome [OF assms] obtain evs r where
    ev: "map requested evs = map Some reqs"
    and tr: "events ?out
               = [ListTools,
                  ModelCall (model self) [user_message query]
                    (Some (available_tools tools)) (Inr m)]
                 @ evs
                 @ [ModelCall (model self) (conversation ?out) None r]"
    and conv: "conversation ?out
               = [user_message query, m] @ map (\<lambda>ev. tool_message (tool_text ext ev)) evs"
    and reps: "reports ?out = map (report_line ext) evs"
    by blast
  have made: "tool_calls_made (events ?out) = evs"
    and lst: "last (events ?out) = ModelCall (model self) (conversation ?out) None r"
    using tool_path_calls [OF ev tr] by simp_all
  have len: "length evs = length reqs"
    using ev by (metis length_map)
  have at: "conversation ?out ! (i + 2) = tool_message (tool_text ext (evs ! i))
            \<and> reports ?out ! i = report_line ext (evs ! i)"
    if "i < length reqs" for i
    using that len conv reps by (simp add: nth_append)
  have failed: "conversation ?out ! (i + 2)
                 = [(''role'', PStr ''tool''),
                    (''content'',
                     PStr (''Error calling tool '' @ quote @ py_str ext n @ quote @ '': ''
                             @ exn_str e))]
               \<and> reports ?out ! i
                   = ''['' @ ''Error calling tool '' @ quote @ py_str ext n @ quote @ '': ''
                       @ exn_str e @ '']''"
    if "i < length reqs" "evs ! i = ToolCall n a (Inl e)" for i n a e
    using at [OF that(1)] that(2) by (simp add: tool_message_def error_message_def)
  have succeeded: "conversation ?out ! (i + 2)
                 = [(''role'', PStr ''tool''), (''content'', PStr s)]
               \<and> reports ?out ! i
                   = ''[Tool '' @ quote @ py_str ext n @ quote @ '' returned: '' @ s @ '']''"
    if "i < length reqs" "evs ! i = ToolCall n a (Inr c)" "content_to_str ext c = Inr s"
    for i n a c s
    using at [OF that(1)] that(2,3) by (simp add: tool_message_def success_line_def)
  have unconverted: "conversation ?out ! (i + 2)
                 = [(''role'', PStr ''tool''),
                    (''content'',
                     PStr (''Error calling tool '' @ quote @ py_str ext n @ quote @ '': ''
                             @ exn_str e))]
               \<and> reports ?out ! i
                   = ''['' @ ''Error calling tool '' @ quote @ py_str ext n @ quote @ '': ''
                       @ exn_str e @ '']''"
    if "i < length reqs" "evs ! i = ToolCall n a (Inr c)" "content_to_str ext c = Inl e"
    for i n a c e
    using at [OF that(1)] that(2,3) by (simp add: tool_message_def error_message_def)
  have l1: "length (conversation ?out) = length reqs + 2"
    and l2: "length (reports ?out) = length reqs"
    using conv reps len by simp_all
  show ?thesis
    unfolding made
    using ev lst l1 l2 failed succeeded unconverted by blast
qed

text \<open>
  The model requests \<open>divide\<close>, which the calculator provider does not have, then
  \<open>add\<close>: the first call raises and is reported, the second is made, and the summary
  call follows.
\<close>

theorem failed_tool_call_does_not_abort_witness:
  "map request_of [divide_request, add_request]
     = map Some [(PStr ''divide'', PDict [(''a'', PInt 2), (''b'', PInt 0)]),
                 (PStr ''add'', PDict [(''a'', PInt 2), (''b'', PInt 2)])]
   \<and> tool_calls_made (events
         (process_query
            (scripted (Inr (assistant_calls [divide_request, add_request]))
               (Inr (assistant_text ''Only the sum worked.'')))
            calculator_client ''2/0 and 2+2'' 0))
       = [ToolCall (PStr ''divide'') (PDict [(''a'', PInt 2), (''b'', PInt 0)])
            (Inl (Exn ''McpError'' ''Unknown tool'')),
          ToolCall (PStr ''add'') (PDict [(''a'', PInt 2), (''b'', PInt 2)])
            (Inr (PStr ''4''))]
   \<and> conversation
         (process_query
            (scripted (Inr (assistant_calls [divide_request, add_request]))
               (Inr (assistant_text ''Only the sum worked.'')))
            calculator_client ''2/0 and 2+2'' 0) ! 2
       = [(''role'', PStr ''tool''),
          (''content'',
           PStr (''Error calling tool '' @ quote @ ''divide'' @ quote @ '': Unknown tool''))]
   \<and> reports
         (process_query
            (scripted (Inr (assistant_calls [divide_request, add_request]))
               (Inr (assistant_text ''Only the sum worked.'')))
            calculator_client ''2/0 and 2+2'' 0) ! 0
       = ''[Error calling tool '' @ quote @ ''divide'' @ quote @ '': Unknown tool]''
   \<and> (\<exists>r. last (events
         (process_query
            (scripted (Inr (assistant_calls [divide_request, add_request]))
               (Inr (assistant_text ''Only the sum worked.'')))
            calculator_client ''2/0 and 2+2'' 0))
        = ModelCall ''gpt-oss:20b''
            (conversation
               (process_query
                  (scripted (Inr (assistant_calls [divide_request, add_request]))
                     (Inr (assistant_text ''Only the sum worked.'')))
                  calculator_client ''2/0 and 2+2'' 0))
            None r)"
proof -
  let ?m = "assistant_calls [divide_request, add_request]"
  let ?ext = "scripted (Inr ?m) (Inr (assistant_text ''Only the sum worked.''))"
  let ?out = "process_query ?ext calculator_client ''2/0 and 2+2'' 0"
  let ?reqs = "[(PStr ''divide'', PDict [(''a'', PInt 2), (''b'', PInt 0)]),
                (PStr ''add'', PDict [(''a'', PInt 2), (''b'', PInt 2)])]"
  have h1: "session calculator_client = Some calculator_session"
    by (simp add: calculator_client_def)
  have h2: "list_tools calculator_session 0 = (Inr [add_tool, math_web_search_tool], 1)"
    by (simp add: calculator_session_def)
  have h3: "chat ?ext (model calculator_client) [user_message ''2/0 and 2+2'']
              (Some (available_tools [add_tool, math_web_search_tool])) 1 = (Inr ?m, 2)"
    by (simp add: scripted_def)
  have h4: "map_of ?m ''tool_calls'' = Some (PList [divide_request, add_request])"
    by (simp add: assistant_calls_def)
  have h5: "[divide_request, add_request] \<noteq> []"
    by simp
  have h6: "map request_of [divide_request, add_request] = map Some ?reqs"
    by (simp add: run_defs)
  have made: "tool_calls_made (events ?out)
       = [ToolCall (PStr ''divide'') (PDict [(''a'', PInt 2), (''b'', PInt 0)])
            (Inl (Exn ''McpError'' ''Unknown tool'')),
          ToolCall (PStr ''add'') (PDict [(''a'', PInt 2), (''b'', PInt 2)])
            (Inr (PStr ''4''))]"
    by (simp add: run_defs)
  note run = failed_tool_call_does_not_abort [OF h1 h2 h3 h4 h5 h6]
  from run have summary:
    "\<exists>r. last (events ?out) = ModelCall (model calculator_client) (conversation ?out) None r"
    by blast
  from run have
    "\<forall>i < length ?reqs. \<forall>n a e.
       tool_calls_made (events ?out) ! i = ToolCall n a (Inl e) \<longrightarrow>
       conversation ?out ! (i + 2)
         = [(''role'', PStr ''tool''),
            (''content'',
             PStr (''Error calling tool '' @ quote @ py_str ?ext n @ quote @ '': ''
                     @ exn_str e))]
       \<and> reports ?out ! i
           = ''['' @ ''Error calling tool '' @ quote @ py_str ?ext n @ quote @ '': ''
               @ exn_str e @ '']''"
    by blast
  then have
    "tool_calls_made (events ?out) ! 0
       = ToolCall (PStr ''divide'') (PDict [(''a'', PInt 2), (''b'', PInt 0)])
           (Inl (Exn ''McpError'' ''Unknown tool'')) \<longrightarrow>
     conversation ?out ! (0 + 2)
       = [(''role'', PStr ''tool''),
          (''content'',
           PStr (''Error calling tool '' @ quote @ py_str ?ext (PStr ''divide'') @ quote
                   @ '': '' @ exn_str (Exn ''McpError'' ''Unknown tool'')))]
     \<and> reports ?out ! 0
         = ''['' @ ''Error calling tool '' @ quote @ py_str ?ext (PStr ''divide'') @ quote
             @ '': '' @ exn_str (Exn ''McpError'' ''Unknown tool'') @ '']''"
    by simp
  with made have
    "conversation ?out ! 2
       = [(''role'', PStr ''tool''),
          (''content'',
           PStr (''Error calling tool '' @ quote @ ''divide'' @ quote @ '': Unknown tool''))]
     \<and> reports ?out ! 0
         = ''[Error calling tool '' @ quote @ ''divide'' @ quote @ '': Unknown tool]''"
    by (simp add: py_str_def numeral_2_eq_2)
  with h6 made summary show ?thesis
    by (simp add: calculator_client_def)
qed

section \<open>The direct answer\<close>

text \<open>
  When the decision response carries no tool calls (the field \<^verbatim>\<open>tool_calls\<close> is not
  set, \<^verbatim>\<open>None\<close> or empty), \<^verbatim>\<open>process_query\<close> makes exactly one model call, the
  decision call, makes no tool call, and returns what
  \<^verbatim>\<open>response_message.get("content", ...)\<close> answers: the content of the response as it
  is when it is set, and \<^verbatim>\<open>None\<close> when it is not.
\<close>

lemma direct_answer_single_model_call:
  assumes "session self = Some sess"
    and "list_tools sess w = (Inr tools, w1)"
    and "chat ext (model self) [user_message query] (Some (available_tools tools)) w1
           = (Inr m, w2)"
    and "\<not> truthy (message_get m ''tool_calls'' PNone)"
  shows "model_calls (events (process_query ext self query w))
           = [ModelCall (model self) [user_message query] (Some (available_tools tools))
                (Inr m)]
         \<and> tool_calls_made (events (process_query ext self query w)) = []
         \<and> result (process_query ext self query w)
             = Inr (case map_of m ''content'' of None \<Rightarrow> PNone | Some v \<Rightarrow> v)"
  using assms
  by (simp add: process_query_def finish_def model_calls_def tool_calls_made_def
        message_get_def message_fields_def dict_get_def)

text \<open>
  C3. For a decision response without tool calls, \<^verbatim>\<open>process_query\<close> is to make exactly
  one model call and to return the content of the response as it is, or a fixed
  placeholder when the content is absent. The code makes the one call and returns a
  content that is set: the query "hello" answered by "Hi there!" returns "Hi there!". But
  for a response whose content is not set it returns \<^verbatim>\<open>None\<close>, not the text
  "Sorry, I received no content." that it passes as default: \<^verbatim>\<open>content\<close> is a declared
  field of the message, so \<^verbatim>\<open>get\<close> never answers the default for it.
\<close>

theorem direct_answer_without_content_returns_none:
  "length (model_calls (events
      (process_query
         (scripted (Inr (assistant_text ''Hi there!'')) (Inr (assistant_text ''unused'')))
         calculator_client ''hello'' 0))) = 1
   \<and> result
         (process_query
            (scripted (Inr (assistant_text ''Hi there!'')) (Inr (assistant_text ''unused'')))
            calculator_client ''hello'' 0)
       = Inr (PStr ''Hi there!'')
   \<and> length (model_calls (events
         (process_query
            (scripted (Inr [(''role'', PStr ''assistant'')]) (Inr (assistant_text ''unused'')))
            calculator_client ''hello'' 0))) = 1
   \<and> result
         (process_query
            (scripted (Inr [(''role'', PStr ''assistant'')]) (Inr (assistant_text ''unused'')))
            calculator_client ''hello'' 0)
       = Inr PNone"
proof -
  let ?m = "assistant_text ''Hi there!''"
  let ?m' = "[(''role'', PStr ''assistant'')] :: message"
  let ?fm = "Inr (assistant_text ''unused'') :: exn + message"
  have h1: "session calculator_client = Some calculator_session"
    by (simp add: calculator_client_def)
  have h2: "list_tools calculator_session 0 = (Inr [add_tool, math_web_search_tool], 1)"
    by (simp add: calculator_session_def)
  have h3: "chat (scripted (Inr ?m) ?fm) (model calculator_client) [user_message ''hello'']
              (Some (available_tools [add_tool, math_web_search_tool])) 1 = (Inr ?m, 2)"
    by (simp add: scripted_def)
  have h3': "chat (scripted (Inr ?m') ?fm) (model calculator_client) [user_message ''hello'']
              (Some (available_tools [add_tool, math_web_search_tool])) 1 = (Inr ?m', 2)"
    by (simp add: scripted_def)
  have h4: "\<not> truthy (message_get ?m ''tool_calls'' PNone)"
    by (simp add: message_get_def message_fields_def dict_get_def assistant_text_def)
  have h4': "\<not> truthy (message_get ?m' ''tool_calls'' PNone)"
    by (simp add: message_get_def message_fields_def dict_get_def)
  show ?thesis
    using direct_answer_single_model_call [OF h1 h2 h3 h4]
      direct_answer_single_model_call [OF h1 h2 h3' h4']
    by (simp add: assistant_text_def)
qed

section \<open>The composed output\<close>

text \<open>
  \<^verbatim>\<open>sep.join(xs)\<close> of a non-empty list, followed by one more separator, is every element
  of the list followed by the separator, in the order of the list.
\<close>

lemma join_then_sep:
  "xs \<noteq> [] \<Longrightarrow> join sep xs @ sep = concat (map (\<lambda>x. x @ sep) xs)"
  by (induction sep xs rule: join.induct) simp_all

text \<open>
  C4. On the tool-call path, when the summary call answers with the text \<open>summary\<close>,
  \<^verbatim>\<open>process_query\<close> returns exactly this string: the report line of every tool call,
  in the order the calls were made, each followed by a newline; then one more newline (so
  that a blank line separates); then \<open>summary\<close>. There is at least one report line.
\<close>

theorem output_is_reports_then_summary:
  assumes "session self = Some sess"
    and "list_tools sess w = (Inr tools, w1)"
    and "chat ext (model self) [user_message query] (Some (available_tools tools)) w1
           = (Inr m, w2)"
    and "map_of m ''tool_calls'' = Some (PList calls)"
    and "calls \<noteq> []"
    and "map request_of calls = map Some reqs"
    and "last (events (process_query ext self query w)) = ModelCall mdl conv None (Inr fm)"
    and "map_of fm ''content'' = Some (PStr summary)"
  shows "reports (process_query ext self query w)
           = map (report_line ext) (tool_calls_made (events (process_query ext self query w)))
         \<and> length (reports (process_query ext self query w)) = length calls
         \<and> result (process_query ext self query w)
             = Inr (PStr (concat (map (\<lambda>line. line @ newline)
                                    (reports (process_query ext self query w)))
                            @ newline @ summary))"
proof -
  let ?out = "process_query ext self query w"
  from tool_path_outcome [OF assms(1-6)] obtain evs r where
    ev: "map requested evs = map Some reqs"
    and tr: "events ?out
               = [ListTools,
                  ModelCall (model self) [user_message query]
                    (Some (available_tools tools)) (Inr m)]
                 @ evs
                 @ [ModelCall (model self) (conversation ?out) None r]"
    and reps: "reports ?out = map (report_line ext) evs"
    and res: "result ?out
               = (case r of
                    Inl e \<Rightarrow> Inl e
                  | Inr fm \<Rightarrow>
                      (case subscript (PDict fm) ''content'' of
                         Inl e \<Rightarrow> Inl e
                       | Inr (PStr s) \<Rightarrow>
                           Inr (PStr (join newline (map (report_line ext) evs)
                                        @ newline @ newline @ s))
                       | Inr other \<Rightarrow>
                           Inl (concat_error other)))"
    by blast
  have made: "tool_calls_made (events ?out) = evs"
    and lst: "last (events ?out) = ModelCall (model self) (conversation ?out) None r"
    using tool_path_calls [OF ev tr] by simp_all
  have len: "length evs = length calls"
    using ev assms(6) by (metis length_map)
  then have ne: "map (report_line ext) evs \<noteq> []"
    using assms(5) by auto
  have r: "r = Inr fm"
    using lst assms(7) by simp
  have "result ?out
          = Inr (PStr ((join newline (map (report_line ext) evs) @ newline)
                         @ newline @ summary))"
    using res r assms(8) by (simp add: subscript_def)
  then have "result ?out
          = Inr (PStr (concat (map (\<lambda>line. line @ newline) (map (report_line ext) evs))
                         @ newline @ summary))"
    by (simp only: join_then_sep [OF ne])
  then show ?thesis
    using made reps len by simp
qed

text \<open>
  The model requests \<open>math_web_search\<close>, then \<open>add\<close>; the summary is
  "The answer is 4.". The output has the two report lines, in that order, a blank line
  and the summary.
\<close>

theorem output_is_reports_then_summary_witness:
  "last (events
      (process_query
         (scripted (Inr (assistant_calls [search_request, add_request]))
            (Inr (assistant_text ''The answer is 4.'')))
         calculator_client ''what is 2+2'' 0))
     = ModelCall ''gpt-oss:20b''
         [user_message ''what is 2+2'', assistant_calls [search_request, add_request],
          tool_message ''Sorry, the web search is currently unavailable.'',
          tool_message ''4'']
         None (Inr (assistant_text ''The answer is 4.''))
   \<and> result
         (process_query
            (scripted (Inr (assistant_calls [search_request, add_request]))
               (Inr (assistant_text ''The answer is 4.'')))
            calculator_client ''what is 2+2'' 0)
       = Inr (PStr (''[Tool '' @ quote @ ''math_web_search'' @ quote
                      @ '' returned: Sorry, the web search is currently unavailable.]''
                      @ newline
                      @ ''[Tool '' @ quote @ ''add'' @ quote @ '' returned: 4]''
                      @ newline @ newline
                      @ ''The answer is 4.''))"
proof -
  let ?m = "assistant_calls [search_request, add_request]"
  let ?fm = "assistant_text ''The answer is 4.''"
  let ?ext = "scripted (Inr ?m) (Inr ?fm)"
  let ?out = "process_query ?ext calculator_client ''what is 2+2'' 0"
  have h1: "session calculator_client = Some calculator_session"
    by (simp add: calculator_client_def)
  have h2: "list_tools calculator_session 0 = (Inr [add_tool, math_web_search_tool], 1)"
    by (simp add: calculator_session_def)
  have h3: "chat ?ext (model calculator_client) [user_message ''what is 2+2'']
              (Some (available_tools [add_tool, math_web_search_tool])) 1 = (Inr ?m, 2)"
    by (simp add: scripted_def)
  have h4: "map_of ?m ''tool_calls'' = Some (PList [search_request, add_request])"
    by (simp add: assistant_calls_def)
  have h5: "[search_request, add_request] \<noteq> []"
    by simp
  have h6: "map request_of [search_request, add_request]
              = map Some [(PStr ''math_web_search'', PDict [(''query'', PStr ''pi'')]),
                          (PStr ''add'', PDict [(''a'', PInt 2), (''b'', PInt 2)])]"
    by (simp add: run_defs)
  have h7: "last (events ?out)
              = ModelCall ''gpt-oss:20b''
                  [user_message ''what is 2+2'', ?m,
                   tool_message ''Sorry, the web search is currently unavailable.'',
                   tool_message ''4'']
                  None (Inr ?fm)"
    by (simp add: run_defs)
  have h8: "map_of ?fm ''content'' = Some (PStr ''The answer is 4.'')"
    by (simp add: assistant_text_def)
  have made: "tool_calls_made (events ?out)
       = [ToolCall (PStr ''math_web_search'') (PDict [(''query'', PStr ''pi'')])
            (Inr (PStr ''Sorry, the web search is currently unavailable.'')),
          ToolCall (PStr ''add'') (PDict [(''a'', PInt 2), (''b'', PInt 2)])
            (Inr (PStr ''4''))]"
    by (simp add: run_defs)
  note composed = output_is_reports_then_summary [OF h1 h2 h3 h4 h5 h6 h7 h8]
  from composed made have lines:
    "reports ?out
       = [''[Tool '' @ quote @ ''math_web_search'' @ quote
            @ '' returned: Sorry, the web search is currently unavailable.]'',
          ''[Tool '' @ quote @ ''add'' @ quote @ '' returned: 4]'']"
    by (simp add: content_to_str_def py_str_def success_line_def)
  from composed have
    "result ?out
       = Inr (PStr (concat (map (\<lambda>line. line @ newline) (reports ?out))
                      @ newline @ ''The answer is 4.''))"
    by blast
  with lines have
    "result ?out
       = Inr (PStr (''[Tool '' @ quote @ ''math_web_search'' @ quote
                      @ '' returned: Sorry, the web search is currently unavailable.]''
                      @ newline
                      @ ''[Tool '' @ quote @ ''add'' @ quote @ '' returned: 4]''
                      @ newline @ newline
                      @ ''The answer is 4.''))"
    by simp
  with h7 show ?thesis
    by simp
qed

section \<open>Number of model calls\<close>

text \<open>
  C5, as the code has it. For every query, \<^verbatim>\<open>process_query\<close> makes zero, one or
  two model calls: no call, or the decision call alone, or the decision call and one
  summary call, made without a tool schema on the final conversation, and that only if at
  least one tool call was made. It never makes a third model call.
\<close>

theorem at_most_two_model_calls:
  "length (model_calls (events (process_query ext self query w))) \<le> 2
   \<and> (model_calls (events (process_query ext self query w)) = []
      \<or> (\<exists>sch r. model_calls (events (process_query ext self query w))
                    = [ModelCall (model self) [user_message query] (Some sch) r])
      \<or> (\<exists>sch r1 r2.
            model_calls (events (process_query ext self query w))
              = [ModelCall (model self) [user_message query] (Some sch) r1,
                 ModelCall (model self) (conversation (process_query ext self query w))
                   None r2]
            \<and> tool_calls_made (events (process_query ext self query w)) \<noteq> []))"
proof -
  let ?out = "process_query ext self query w"
  from process_query_events [of ext self query w] obtain evs where
    tool: "list_all is_tool_call evs"
    and shape: "events ?out = []
        \<or> events ?out = [ListTools]
        \<or> (\<exists>sch r. events ?out
                      = [ListTools, ModelCall (model self) [user_message query] (Some sch) r]
                        @ evs)
        \<or> (\<exists>sch r1 r2.
              evs \<noteq> []
              \<and> events ?out
                  = [ListTools, ModelCall (model self) [user_message query] (Some sch) r1]
                    @ evs
                    @ [ModelCall (model self) (conversation ?out) None r2]
              \<and> (\<forall>e. r2 = Inl e \<longrightarrow> result ?out = Inl e))"
    by blast
  note f = only_tool_calls [OF tool]
  have cases: "model_calls (events ?out) = []
      \<or> (\<exists>sch r. model_calls (events ?out)
                    = [ModelCall (model self) [user_message query] (Some sch) r])
      \<or> (\<exists>sch r1 r2.
            model_calls (events ?out)
              = [ModelCall (model self) [user_message query] (Some sch) r1,
                 ModelCall (model self) (conversation ?out) None r2]
            \<and> tool_calls_made (events ?out) \<noteq> [])"
    using shape
  proof (elim disjE exE conjE)
    assume "events ?out = []"
    then show ?thesis by (simp add: model_calls_def)
  next
    assume "events ?out = [ListTools]"
    then show ?thesis by (simp add: model_calls_def)
  next
    fix sch r
    assume "events ?out
              = [ListTools, ModelCall (model self) [user_message query] (Some sch) r] @ evs"
    then have "model_calls (events ?out)
                 = [ModelCall (model self) [user_message query] (Some sch) r]"
      using f by (simp add: model_calls_def)
    then show ?thesis by blast
  next
    fix sch r1 r2
    assume ne: "evs \<noteq> []"
      and ev: "events ?out
              = [ListTools, ModelCall (model self) [user_message query] (Some sch) r1]
                @ evs @ [ModelCall (model self) (conversation ?out) None r2]"
    have "model_calls (events ?out)
            = [ModelCall (model self) [user_message query] (Some sch) r1,
               ModelCall (model self) (conversation ?out) None r2]"
      unfolding model_calls_def by (subst ev) (simp add: f)
    moreover have "tool_calls_made (events ?out) = evs"
      unfolding tool_calls_made_def by (subst ev) (simp add: f)
    ultimately show ?thesis using ne by blast
  qed
  then have "length (model_calls (events ?out)) \<le> 2"
    by auto
  with cases show ?thesis by blast
qed

text \<open>
  A run on the tool-call path makes the two model calls.
\<close>

theorem at_most_two_model_calls_witness:
  "model_calls (events
      (process_query
         (scripted (Inr (assistant_calls [add_request]))
            (Inr (assistant_text ''The answer is 4.'')))
         calculator_client ''what is 2+2'' 0))
     = [ModelCall ''gpt-oss:20b'' [user_message ''what is 2+2'']
          (Some (available_tools [add_tool, math_web_search_tool]))
          (Inr (assistant_calls [add_request])),
        ModelCall ''gpt-oss:20b''
          [user_message ''what is 2+2'', assistant_calls [add_request], tool_message ''4'']
          None (Inr (assistant_text ''The answer is 4.''))]
   \<and> length (model_calls (events
         (process_query
            (scripted (Inr (assistant_calls [add_request]))
               (Inr (assistant_text ''The answer is 4.'')))
            calculator_client ''what is 2+2'' 0))) \<le> 2
   \<and> tool_calls_made (events
         (process_query
            (scripted (Inr (assistant_calls [add_request]))
               (Inr (assistant_text ''The answer is 4.'')))
            calculator_client ''what is 2+2'' 0)) \<noteq> []"
proof -
  let ?out = "process_query
         (scripted (Inr (assistant_calls [add_request]))
            (Inr (assistant_text ''The answer is 4.'')))
         calculator_client ''what is 2+2'' 0"
  have calls: "model_calls (events ?out)
     = [ModelCall ''gpt-oss:20b'' [user_message ''what is 2+2'']
          (Some (available_tools [add_tool, math_web_search_tool]))
          (Inr (assistant_calls [add_request])),
        ModelCall ''gpt-oss:20b''
          [user_message ''what is 2+2'', assistant_calls [add_request], tool_message ''4'']
          None (Inr (assistant_text ''The answer is 4.''))]"
    by (simp add: run_defs)
  from at_most_two_model_calls
         [of "scripted (Inr (assistant_calls [add_request]))
                (Inr (assistant_text ''The answer is 4.''))"
             calculator_client "''what is 2+2''" 0]
  have "length (model_calls (events ?out)) \<le> 2"
    and "tool_calls_made (events ?out) \<noteq> []"
    using calls by auto
  with calls show ?thesis by simp
qed

text \<open>
  The number of model calls is not always zero or two: the query "hello", answered
  directly, takes exactly one model call.
\<close>

theorem zero_or_two_model_calls_counterexample:
  "\<not> (length (model_calls (events
          (process_query
             (scripted (Inr (assistant_text ''Hi there!'')) (Inr (assistant_text ''unused'')))
             calculator_client ''hello'' 0))) = 0
      \<or> length (model_calls (events
          (process_query
             (scripted (Inr (assistant_text ''Hi there!'')) (Inr (assistant_text ''unused'')))
             calculator_client ''hello'' 0))) = 2)"
  by (simp add: run_defs)

section \<open>Text and tool calls together\<close>

text \<open>
  C6. When the decision response carries both a text content and a non-empty list of
  requested tool calls, \<^verbatim>\<open>process_query\<close> takes the tool-call path: the requested
  calls are made, the summary call follows, and what is returned is built from the report
  lines and the answer of the summary call, not from the text of the decision response.
\<close>

theorem tool_calls_take_precedence:
  assumes "session self = Some sess"
    and "list_tools sess w = (Inr tools, w1)"
    and "chat ext (model self) [user_message query] (Some (available_tools tools)) w1
           = (Inr m, w2)"
    and "map_of m ''content'' = Some (PStr text)"
    and "map_of m ''tool_calls'' = Some (PList calls)"
    and "calls \<noteq> []"
    and "map request_of calls = map Some reqs"
  shows "tool_calls_made (events (process_query ext self query w)) \<noteq> []
         \<and> map requested (tool_calls_made (events (process_query ext self query w)))
             = map Some reqs
         \<and> (\<exists>r. last (events (process_query ext self query w))
                  = ModelCall (model self) (conversation (process_query ext self query w))
                      None r
                \<and> result (process_query ext self query w)
                    = (case r of
                         Inl e \<Rightarrow> Inl e
                       | Inr fm \<Rightarrow>
                           (case subscript (PDict fm) ''content'' of
                              Inl e \<Rightarrow> Inl e
                            | Inr (PStr s) \<Rightarrow>
                                Inr (PStr (join newline
                                             (reports (process_query ext self query w))
                                           @ newline @ newline @ s))
                            | Inr other \<Rightarrow>
                                Inl (concat_error other))))"
proof -
  let ?out = "process_query ext self query w"
  from tool_path_outcome [OF assms(1-3) assms(5-7)] obtain evs r where
    ev: "map requested evs = map Some reqs"
    and tr: "events ?out
               = [ListTools,
                  ModelCall (model self) [user_message query]
                    (Some (available_tools tools)) (Inr m)]
                 @ evs
                 @ [ModelCall (model self) (conversation ?out) None r]"
    and reps: "reports ?out = map (report_line ext) evs"
    and res: "result ?out
               = (case r of
                    Inl e \<Rightarrow> Inl e
                  | Inr fm \<Rightarrow>
                      (case subscript (PDict fm) ''content'' of
                         Inl e \<Rightarrow> Inl e
                       | Inr (PStr s) \<Rightarrow>
                           Inr (PStr (join newline (map (report_line ext) evs)
                                        @ newline @ newline @ s))
                       | Inr other \<Rightarrow>
                           Inl (concat_error other)))"
    by blast
  have made: "tool_calls_made (events ?out) = evs"
    and lst: "last (events ?out) = ModelCall (model self) (conversation ?out) None r"
    using tool_path_calls [OF ev tr] by simp_all
  have "length evs = length calls"
    using ev assms(7) by (metis length_map)
  then have ne: "evs \<noteq> []"
    using assms(6) by auto
  show ?thesis
    unfolding made reps
    using ne ev lst res by blast
qed

text \<open>
  A decision response that says "Let me add that." and requests \<open>add\<close>.
\<close>

theorem tool_calls_take_precedence_witness:
  "map_of (assistant_text_and_calls ''Let me add that.'' [add_request]) ''content''
     = Some (PStr ''Let me add that.'')
   \<and> map_of (assistant_text_and_calls ''Let me add that.'' [add_request]) ''tool_calls''
       = Some (PList [add_request])
   \<and> tool_calls_made (events
         (process_query
            (scripted (Inr (assistant_text_and_calls ''Let me add that.'' [add_request]))
               (Inr (assistant_text ''The answer is 4.'')))
            calculator_client ''what is 2+2'' 0))
       = [ToolCall (PStr ''add'') (PDict [(''a'', PInt 2), (''b'', PInt 2)])
            (Inr (PStr ''4''))]
   \<and> result
         (process_query
            (scripted (Inr (assistant_text_and_calls ''Let me add that.'' [add_request]))
               (Inr (assistant_text ''The answer is 4.'')))
            calculator_client ''what is 2+2'' 0)
       = Inr (PStr (''[Tool '' @ quote @ ''add'' @ quote @ '' returned: 4]''
                      @ newline @ newline @ ''The answer is 4.''))"
proof -
  let ?m = "assistant_text_and_calls ''Let me add that.'' [add_request]"
  let ?fm = "assistant_text ''The answer is 4.''"
  let ?ext = "scripted (Inr ?m) (Inr ?fm)"
  let ?out = "process_query ?ext calculator_client ''what is 2+2'' 0"
  have h1: "session calculator_client = Some calculator_session"
    by (simp add: calculator_client_def)
  have h2: "list_tools calculator_session 0 = (Inr [add_tool, math_web_search_tool], 1)"
    by (simp add: calculator_session_def)
  have h3: "chat ?ext (model calculator_client) [user_message ''what is 2+2'']
              (Some (available_tools [add_tool, math_web_search_tool])) 1 = (Inr ?m, 2)"
    by (simp add: scripted_def)
  have h4: "map_of ?m ''content'' = Some (PStr ''Let me add that.'')"
    by (simp add: assistant_text_and_calls_def)
  have h5: "map_of ?m ''tool_calls'' = Some (PList [add_request])"
    by (simp add: assistant_text_and_calls_def)
  have h6: "[add_request] \<noteq> []"
    by simp
  have h7: "map request_of [add_request]
              = map Some [(PStr ''add'', PDict [(''a'', PInt 2), (''b'', PInt 2)])]"
    by (simp add: run_defs)
  have lst: "last (events ?out)
              = ModelCall ''gpt-oss:20b''
                  [user_message ''what is 2+2'', ?m, tool_message ''4''] None (Inr ?fm)"
    by (simp add: run_defs)
  have made: "tool_calls_made (events ?out)
       = [ToolCall (PStr ''add'') (PDict [(''a'', PInt 2), (''b'', PInt 2)])
            (Inr (PStr ''4''))]"
    by (simp add: run_defs)
  have reps: "reports ?out = [''[Tool '' @ quote @ ''add'' @ quote @ '' returned: 4]'']"
    by (simp add: run_defs)
  from tool_calls_take_precedence [OF h1 h2 h3 h4 h5 h6 h7] obtain r where
    r: "last (events ?out) = ModelCall (model calculator_client) (conversation ?out) None r"
    and res: "result ?out
                = (case r of
                     Inl e \<Rightarrow> Inl e
                   | Inr fm \<Rightarrow>
                       (case subscript (PDict fm) ''content'' of
                          Inl e \<Rightarrow> Inl e
                        | Inr (PStr s) \<Rightarrow>
                            Inr (PStr (join newline (reports ?out) @ newline @ newline @ s))
                        | Inr other \<Rightarrow>
                            Inl (concat_error other)))"
    by blast
  from r lst have "r = Inr ?fm"
    by simp
  with res reps have
    "result ?out
       = Inr (PStr (''[Tool '' @ quote @ ''add'' @ quote @ '' returned: 4]''
                      @ newline @ newline @ ''The answer is 4.''))"
    by (simp add: subscript_def assistant_text_def)
  with h4 h5 made show ?thesis
    by simp
qed

section \<open>The catalog adapter\<close>

text \<open>
  C7. The tool schema is a function of the descriptor list alone: it has one
  function-style entry per descriptor, the entry at each position built from the
  descriptor at that position (its name, its description, and the properties and the
  required list of its input schema, an empty dictionary and an empty list standing for
  those the input schema omits). It is what \<^verbatim>\<open>process_query\<close> passes to the decision
  call, whatever the query, the model backend and the world.
\<close>

theorem catalog_adapter_order_and_defaults:
  "length (available_tools ts) = length ts
   \<and> (\<forall>i < length ts.
         subscript (available_tools ts ! i) ''type'' = Inr (PStr ''function'')
         \<and> subscript2 (available_tools ts ! i) ''function'' ''name''
             = Inr (PStr (name (ts ! i)))
         \<and> subscript2 (available_tools ts ! i) ''function'' ''description''
             = Inr (case description (ts ! i) of None \<Rightarrow> PNone | Some d \<Rightarrow> PStr d)
         \<and> schema_parameter (available_tools ts ! i) ''type'' = Inr (PStr ''object'')
         \<and> schema_parameter (available_tools ts ! i) ''properties''
             = Inr (case map_of (inputSchema (ts ! i)) ''properties'' of
                      None \<Rightarrow> PDict []
                    | Some v \<Rightarrow> v)
         \<and> schema_parameter (available_tools ts ! i) ''required''
             = Inr (case map_of (inputSchema (ts ! i)) ''required'' of
                      None \<Rightarrow> PList []
                    | Some v \<Rightarrow> v))
   \<and> (session self = Some sess \<and> list_tools sess w = (Inr ts, w1) \<longrightarrow>
        (\<exists>r. events (process_query ext self query w) ! 1
               = ModelCall (model self) [user_message query] (Some (available_tools ts)) r))"
proof (intro conjI allI impI)
  show "length (available_tools ts) = length ts"
    by (simp add: available_tools_def)
next
  assume "session self = Some sess \<and> list_tools sess w = (Inr ts, w1)"
  then show "\<exists>r. events (process_query ext self query w) ! 1
               = ModelCall (model self) [user_message query] (Some (available_tools ts)) r"
    using decision_call_schema [of self sess w ts w1 ext query] by blast
qed (simp_all add: available_tools_def tool_entry_fields)

text \<open>
  A catalog whose second descriptor has an empty input schema, and the schema passed
  for the catalog of the calculator provider.
\<close>

theorem catalog_adapter_order_and_defaults_witness:
  "subscript2 (available_tools [add_tool, bare_tool, math_web_search_tool] ! 0)
       ''function'' ''name'' = Inr (PStr ''add'')
   \<and> subscript2 (available_tools [add_tool, bare_tool, math_web_search_tool] ! 2)
       ''function'' ''name'' = Inr (PStr ''math_web_search'')
   \<and> schema_parameter (available_tools [add_tool, bare_tool, math_web_search_tool] ! 0)
       ''required'' = Inr (PList [PStr ''a'', PStr ''b''])
   \<and> map_of (inputSchema bare_tool) ''properties'' = None
   \<and> map_of (inputSchema bare_tool) ''required'' = None
   \<and> schema_parameter (available_tools [add_tool, bare_tool, math_web_search_tool] ! 1)
       ''properties'' = Inr (PDict [])
   \<and> schema_parameter (available_tools [add_tool, bare_tool, math_web_search_tool] ! 1)
       ''required'' = Inr (PList [])
   \<and> (\<exists>r. events
             (process_query
                (scripted (Inr (assistant_text ''Hi there!''))
                   (Inr (assistant_text ''unused'')))
                calculator_client ''hello'' 0) ! 1
           = ModelCall ''gpt-oss:20b'' [user_message ''hello'']
               (Some (available_tools [add_tool, math_web_search_tool])) r)"
proof -
  let ?ts = "[add_tool, bare_tool, math_web_search_tool]"
  let ?ext = "scripted (Inr (assistant_text ''Hi there!'')) (Inr (assistant_text ''unused''))"
  have h: "session calculator_client = Some calculator_session
           \<and> list_tools calculator_session 0 = (Inr [add_tool, math_web_search_tool], 1)"
    by (simp add: calculator_client_def calculator_session_def)
  note entries = catalog_adapter_order_and_defaults
                   [of ?ts calculator_client calculator_session 0 1 ?ext "''hello''"]
  note passed = catalog_adapter_order_and_defaults
                   [of "[add_tool, math_web_search_tool]" calculator_client
                       calculator_session 0 1 ?ext "''hello''"]
  from entries have at:
    "\<forall>i < length ?ts.
         subscript2 (available_tools ?ts ! i) ''function'' ''name''
             = Inr (PStr (name (?ts ! i)))
         \<and> schema_parameter (available_tools ?ts ! i) ''properties''
             = Inr (case map_of (inputSchema (?ts ! i)) ''properties'' of
                      None \<Rightarrow> PDict []
                    | Some v \<Rightarrow> v)
         \<and> schema_parameter (available_tools ?ts ! i) ''required''
             = Inr (case map_of (inputSchema (?ts ! i)) ''required'' of
                      None \<Rightarrow> PList []
                    | Some v \<Rightarrow> v)"
    by blast
  have "(0::nat) < length ?ts" "(1::nat) < length ?ts" "(2::nat) < length ?ts"
    by simp_all
  with at have
    "subscript2 (available_tools ?ts ! 0) ''function'' ''name'' = Inr (PStr (name (?ts ! 0)))"
    "subscript2 (available_tools ?ts ! 2) ''function'' ''name'' = Inr (PStr (name (?ts ! 2)))"
    "schema_parameter (available_tools ?ts ! 0) ''required''
       = Inr (case map_of (inputSchema (?ts ! 0)) ''required'' of
                None \<Rightarrow> PList []
              | Some v \<Rightarrow> v)"
    "schema_parameter (available_tools ?ts ! 1) ''properties''
       = Inr (case map_of (inputSchema (?ts ! 1)) ''properties'' of
                None \<Rightarrow> PDict []
              | Some v \<Rightarrow> v)"
    "schema_parameter (available_tools ?ts ! 1) ''required''
       = Inr (case map_of (inputSchema (?ts ! 1)) ''required'' of
                None \<Rightarrow> PList []
              | Some v \<Rightarrow> v)"
    by blast+
  then have fields:
    "subscript2 (available_tools ?ts ! 0) ''function'' ''name'' = Inr (PStr ''add'')"
    "subscript2 (available_tools ?ts ! 2) ''function'' ''name''
       = Inr (PStr ''math_web_search'')"
    "schema_parameter (available_tools ?ts ! 0) ''required''
       = Inr (PList [PStr ''a'', PStr ''b''])"
    "schema_parameter (available_tools ?ts ! 1) ''properties'' = Inr (PDict [])"
    "schema_parameter (available_tools ?ts ! 1) ''required'' = Inr (PList [])"
    by (simp_all add: add_tool_def bare_tool_def math_web_search_tool_def)
  from passed h have
    "\<exists>r. events (process_query ?ext calculator_client ''hello'' 0) ! 1
           = ModelCall (model calculator_client) [user_message ''hello'']
               (Some (available_tools [add_tool, math_web_search_tool])) r"
    by blast
  then have "\<exists>r. events (process_query ?ext calculator_client ''hello'' 0) ! 1
           = ModelCall ''gpt-oss:20b'' [user_message ''hello'']
               (Some (available_tools [add_tool, math_web_search_tool])) r"
    by (simp add: calculator_client_def)
  with fields show ?thesis
    by (simp add: bare_tool_def)
qed

section \<open>Fatal failures\<close>

text \<open>
  C8. If the tool listing raises, \<^verbatim>\<open>process_query\<close> raises that exception: no
  model call and no tool call is made and the conversation holds the user message only.
  If the second model call (the one made without a tool schema) raises,
  \<^verbatim>\<open>process_query\<close> raises that exception: the call is the last event of the run and
  nothing is appended to the conversation after it.
\<close>

theorem listing_and_summary_failures_are_fatal:
  "(session self = Some sess \<and> list_tools sess w = (Inl e, w1) \<longrightarrow>
      result (process_query ext self query w) = Inl e
      \<and> events (process_query ext self query w) = [ListTools]
      \<and> conversation (process_query ext self query w) = [user_message query])
   \<and> (ModelCall mdl conv None (Inl e') \<in> set (events (process_query ext self query w)) \<longrightarrow>
        result (process_query ext self query w) = Inl e'
        \<and> last (events (process_query ext self query w)) = ModelCall mdl conv None (Inl e')
        \<and> conversation (process_query ext self query w) = conv)"
proof (rule conjI; rule impI)
  assume "session self = Some sess \<and> list_tools sess w = (Inl e, w1)"
  then show "result (process_query ext self query w) = Inl e
      \<and> events (process_query ext self query w) = [ListTools]
      \<and> conversation (process_query ext self query w) = [user_message query]"
    by (simp add: process_query_def finish_def)
next
  let ?out = "process_query ext self query w"
  assume failed: "ModelCall mdl conv None (Inl e') \<in> set (events ?out)"
  from process_query_events [of ext self query w] obtain evs where
    tool: "list_all is_tool_call evs"
    and shape: "events ?out = []
        \<or> events ?out = [ListTools]
        \<or> (\<exists>sch r. events ?out
                      = [ListTools, ModelCall (model self) [user_message query] (Some sch) r]
                        @ evs)
        \<or> (\<exists>sch r1 r2.
              evs \<noteq> []
              \<and> events ?out
                  = [ListTools, ModelCall (model self) [user_message query] (Some sch) r1]
                    @ evs
                    @ [ModelCall (model self) (conversation ?out) None r2]
              \<and> (\<forall>e. r2 = Inl e \<longrightarrow> result ?out = Inl e))"
    by blast
  have not_tool: "ModelCall mdl conv None (Inl e') \<notin> set evs"
    using tool by (auto simp: list_all_iff)
  from shape show "result ?out = Inl e'
        \<and> last (events ?out) = ModelCall mdl conv None (Inl e')
        \<and> conversation ?out = conv"
  proof (elim disjE exE conjE)
    assume "events ?out = []"
    with failed show ?thesis by simp
  next
    assume "events ?out = [ListTools]"
    with failed show ?thesis by simp
  next
    fix sch r
    assume "events ?out
              = [ListTools, ModelCall (model self) [user_message query] (Some sch) r] @ evs"
    with failed not_tool show ?thesis by simp
  next
    fix sch r1 r2
    assume ev: "events ?out
              = [ListTools, ModelCall (model self) [user_message query] (Some sch) r1]
                @ evs @ [ModelCall (model self) (conversation ?out) None r2]"
      and res: "\<forall>e. r2 = Inl e \<longrightarrow> result ?out = Inl e"
    from failed not_tool
    have "ModelCall mdl conv None (Inl e') = ModelCall (model self) (conversation ?out) None r2"
      by (subst (asm) ev) auto
    then have eq: "mdl = model self" "conv = conversation ?out" "r2 = Inl e'"
      by simp_all
    have "last (events ?out) = ModelCall (model self) (conversation ?out) None r2"
      by (subst ev) simp
    with eq res show ?thesis by simp
  qed
qed

text \<open>
  A session whose listing fails, and a model backend that fails on the summary call.
\<close>

theorem listing_and_summary_failures_are_fatal_witness:
  "result (process_query (scripted (Inr (assistant_text ''Hi there!''))
                            (Inr (assistant_text ''unused'')))
             broken_client ''hello'' 0)
     = Inl (Exn ''McpError'' ''Connection closed'')
   \<and> events (process_query (scripted (Inr (assistant_text ''Hi there!''))
                              (Inr (assistant_text ''unused'')))
               broken_client ''hello'' 0)
       = [ListTools]
   \<and> ModelCall ''gpt-oss:20b''
         [user_message ''what is 2+2'', assistant_calls [add_request], tool_message ''4'']
         None (Inl (Exn ''ResponseError'' ''model runner has stopped''))
       \<in> set (events (process_query
                         (scripted (Inr (assistant_calls [add_request]))
                            (Inl (Exn ''ResponseError'' ''model runner has stopped'')))
                         calculator_client ''what is 2+2'' 0))
   \<and> result (process_query
                (scripted (Inr (assistant_calls [add_request]))
                   (Inl (Exn ''ResponseError'' ''model runner has stopped'')))
                calculator_client ''what is 2+2'' 0)
       = Inl (Exn ''ResponseError'' ''model runner has stopped'')
   \<and> conversation (process_query
                      (scripted (Inr (assistant_calls [add_request]))
                         (Inl (Exn ''ResponseError'' ''model runner has stopped'')))
                      calculator_client ''what is 2+2'' 0)
       = [user_message ''what is 2+2'', assistant_calls [add_request], tool_message ''4'']"
proof -
  let ?ext1 = "scripted (Inr (assistant_text ''Hi there!'')) (Inr (assistant_text ''unused''))"
  let ?e = "Exn ''McpError'' ''Connection closed''"
  let ?e' = "Exn ''ResponseError'' ''model runner has stopped''"
  let ?ext2 = "scripted (Inr (assistant_calls [add_request])) (Inl ?e')"
  let ?conv = "[user_message ''what is 2+2'', assistant_calls [add_request],
                tool_message ''4'']"
  have h1: "session broken_client = Some broken_session
            \<and> list_tools broken_session 0 = (Inl ?e, 1)"
    by (simp add: broken_client_def broken_session_def)
  have h2: "ModelCall ''gpt-oss:20b'' ?conv None (Inl ?e')
              \<in> set (events (process_query ?ext2 calculator_client ''what is 2+2'' 0))"
    by (simp add: run_defs)
  from listing_and_summary_failures_are_fatal
         [of broken_client broken_session 0 ?e 1 ?ext1 "''hello''"] h1
  have a: "result (process_query ?ext1 broken_client ''hello'' 0) = Inl ?e
           \<and> events (process_query ?ext1 broken_client ''hello'' 0) = [ListTools]"
    by blast
  from listing_and_summary_failures_are_fatal
         [of calculator_client _ 0 _ _ ?ext2 "''what is 2+2''" "''gpt-oss:20b''" ?conv ?e'] h2
  have b: "result (process_query ?ext2 calculator_client ''what is 2+2'' 0) = Inl ?e'
           \<and> conversation (process_query ?ext2 calculator_client ''what is 2+2'' 0) = ?conv"
    by blast
  from a b h2 show ?thesis
    by simp
qed

section \<open>The runner of the server script\<close>

text \<open>
  C9. For a path that ends with neither \<^verbatim>\<open>.py\<close> nor \<^verbatim>\<open>.js\<close>,
  \<^verbatim>\<open>connect_to_server\<close> raises \<^verbatim>\<open>ValueError\<close> (the unsupported script kind) before
  anything is launched: no event, the world and the client unchanged. For a path ending
  with \<^verbatim>\<open>.py\<close> it launches once, with the command \<^verbatim>\<open>python\<close> and the path as sole
  argument; for a path ending with \<^verbatim>\<open>.js\<close>, with the command \<^verbatim>\<open>node\<close>.
\<close>

theorem connect_checks_suffix_and_selects_runner:
  "(\<not> endswith p ''.py'' \<and> \<not> endswith p ''.js'' \<longrightarrow>
      raised (connect_to_server ext self p w)
        = Some (Exn ''ValueError'' ''Server script must be a .py or .js file'')
      \<and> launch_events (connect_to_server ext self p w) = []
      \<and> world_after (connect_to_server ext self p w) = w
      \<and> client (connect_to_server ext self p w) = self)
   \<and> (endswith p ''.py'' \<longrightarrow>
        (\<exists>rest. launch_events (connect_to_server ext self p w)
                  = Launch \<lparr>command = ''python'', args = [p], env = None\<rparr> # rest
                \<and> (\<forall>q. Launch q \<notin> set rest)))
   \<and> (endswith p ''.js'' \<longrightarrow>
        (\<exists>rest. launch_events (connect_to_server ext self p w)
                  = Launch \<lparr>command = ''node'', args = [p], env = None\<rparr> # rest
                \<and> (\<forall>q. Launch q \<notin> set rest)))"
proof (intro conjI; rule impI)
  assume "\<not> endswith p ''.py'' \<and> \<not> endswith p ''.js''"
  then show "raised (connect_to_server ext self p w)
        = Some (Exn ''ValueError'' ''Server script must be a .py or .js file'')
      \<and> launch_events (connect_to_server ext self p w) = []
      \<and> world_after (connect_to_server ext self p w) = w
      \<and> client (connect_to_server ext self p w) = self"
    by (simp add: connect_to_server_def)
next
  assume py: "endswith p ''.py''"
  then show "\<exists>rest. launch_events (connect_to_server ext self p w)
                  = Launch \<lparr>command = ''python'', args = [p], env = None\<rparr> # rest
                \<and> (\<forall>q. Launch q \<notin> set rest)"
    using connect_launches_once [of p ext self w] by simp
next
  assume js: "endswith p ''.js''"
  then show "\<exists>rest. launch_events (connect_to_server ext self p w)
                  = Launch \<lparr>command = ''node'', args = [p], env = None\<rparr> # rest
                \<and> (\<forall>q. Launch q \<notin> set rest)"
    using connect_launches_once [of p ext self w] js_is_not_python [OF js] by simp
qed

text \<open>
  The paths \<^verbatim>\<open>notes.txt\<close>, \<^verbatim>\<open>mcp_calculator_server.py\<close> and \<^verbatim>\<open>server.js\<close>.
\<close>

theorem connect_checks_suffix_and_selects_runner_witness:
  "\<not> endswith ''notes.txt'' ''.py'' \<and> \<not> endswith ''notes.txt'' ''.js''
   \<and> endswith ''mcp_calculator_server.py'' ''.py''
   \<and> endswith ''server.js'' ''.js''
   \<and> raised (connect_to_server
                (scripted (Inr (assistant_text ''Hi there!''))
                   (Inr (assistant_text ''unused'')))
                disconnected_client ''notes.txt'' 0)
       = Some (Exn ''ValueError'' ''Server script must be a .py or .js file'')
   \<and> launch_events (connect_to_server
                       (scripted (Inr (assistant_text ''Hi there!''))
                          (Inr (assistant_text ''unused'')))
                       disconnected_client ''notes.txt'' 0) = []
   \<and> hd (launch_events (connect_to_server
                           (scripted (Inr (assistant_text ''Hi there!''))
                              (Inr (assistant_text ''unused'')))
                           disconnected_client ''mcp_calculator_server.py'' 0))
       = Launch \<lparr>command = ''python'', args = [''mcp_calculator_server.py''], env = None\<rparr>
   \<and> hd (launch_events (connect_to_server
                           (scripted (Inr (assistant_text ''Hi there!''))
                              (Inr (assistant_text ''unused'')))
                           disconnected_client ''server.js'' 0))
       = Launch \<lparr>command = ''node'', args = [''server.js''], env = None\<rparr>"
proof -
  let ?ext = "scripted (Inr (assistant_text ''Hi there!'')) (Inr (assistant_text ''unused''))"
  have h1: "\<not> endswith ''notes.txt'' ''.py'' \<and> \<not> endswith ''notes.txt'' ''.js''"
    by (simp add: endswith_def)
  have h2: "endswith ''mcp_calculator_server.py'' ''.py''"
    by (simp add: endswith_def)
  have h3: "endswith ''server.js'' ''.js''"
    by (simp add: endswith_def)
  from connect_checks_suffix_and_selects_runner
         [of "''notes.txt''" ?ext disconnected_client 0] h1
  have a: "raised (connect_to_server ?ext disconnected_client ''notes.txt'' 0)
             = Some (Exn ''ValueError'' ''Server script must be a .py or .js file'')
           \<and> launch_events (connect_to_server ?ext disconnected_client ''notes.txt'' 0) = []"
    by blast
  from connect_checks_suffix_and_selects_runner
         [of "''mcp_calculator_server.py''" ?ext disconnected_client 0] h2
  have b: "hd (launch_events
                 (connect_to_server ?ext disconnected_client ''mcp_calculator_server.py'' 0))
             = Launch \<lparr>command = ''python'', args = [''mcp_calculator_server.py''],
                       env = None\<rparr>"
    by auto
  from connect_checks_suffix_and_selects_runner
         [of "''server.js''" ?ext disconnected_client 0] h3
  have c: "hd (launch_events (connect_to_server ?ext disconnected_client ''server.js'' 0))
             = Launch \<lparr>command = ''node'', args = [''server.js''], env = None\<rparr>"
    by auto
  from h1 h2 h3 a b c show ?thesis
    by simp
qed

section \<open>Not connected\<close>

text \<open>
  C10. For every query string, a client whose \<^verbatim>\<open>session\<close> is \<^verbatim>\<open>None\<close> returns
  exactly the string "Error: Not connected to a server." and does nothing to the outside:
  no tool listing, no model call, no tool call, the world unchanged.
\<close>

theorem not_connected_returns_error:
  "result (process_query ext \<lparr>model = m, session = None\<rparr> query w)
     = Inr (PStr ''Error: Not connected to a server.'')
   \<and> events (process_query ext \<lparr>model = m, session = None\<rparr> query w) = []
   \<and> final_world (process_query ext \<lparr>model = m, session = None\<rparr> query w) = w"
  by (simp add: process_query_def)

end
